theory Spec2Isabelle
  imports Main "HOL-Library.Sublist"
begin

section \<open>pyBackup: a shallow embedding of \<^verbatim>\<open>pyBackup.2.0.py\<close>\<close>

text \<open>
  The script keeps its configuration in module globals, sets up a logger named
  \<^verbatim>\<open>rclone_backup\<close> with a rotating file handler and a console handler, and runs
  \<^verbatim>\<open>rclone sync\<close> once for every entry of \<^verbatim>\<open>BACKUP_LOCATIONS\<close>. The embedding
  threads one record of the module's globals and of the observable outputs through every
  function; everything outside the script (the file system, the child processes, the
  rendering of values by the Python library) is a parameter of type \<open>env\<close>.
\<close>

subsection \<open>Log levels, records, handlers\<close>

datatype level = NOTSET | DEBUG | INFO | WARNING | ERROR | CRITICAL

fun levelno :: "level \<Rightarrow> nat" where
  "levelno NOTSET = 0"
| "levelno DEBUG = 10"
| "levelno INFO = 20"
| "levelno WARNING = 30"
| "levelno ERROR = 40"
| "levelno CRITICAL = 50"

text \<open>A log record; the timestamp that the formatter adds is real time and is left out.\<close>

record log_record =
  levelname :: level
  message :: string

text \<open>
  The two handler objects that \<^verbatim>\<open>setup_logging\<close> creates. The script never creates a
  second handler of either class, so equality of these values is the identity of the
  Python objects.
\<close>

datatype handler =
    RotatingFile (baseFilename: string) (maxBytes: nat) (backupCount: nat) (hlevel: level)
  | Stream (hlevel: level)


record logger =
  level :: level
  hdlrs :: "handler list"

text \<open>
  \<^verbatim>\<open>Logger.getEffectiveLevel\<close>: a logger whose own level is \<^verbatim>\<open>NOTSET\<close> takes the level of
  its parent, here the root logger, which the script leaves at its default
  \<^verbatim>\<open>WARNING\<close>.
\<close>

definition getEffectiveLevel :: "logger \<Rightarrow> level" where
  "getEffectiveLevel lg = (if level lg = NOTSET then WARNING else level lg)"

subsection \<open>Exceptions and the environment\<close>

text \<open>
  \<open>CalledProcessError\<close> carries the return code and the command; \<open>Exception\<close> stands for
  any other subclass of Python's \<^verbatim>\<open>Exception\<close> and carries the text \<^verbatim>\<open>str(e)\<close>.
\<close>

datatype exn = CalledProcessError int "string list" | Exception string

text \<open>
  What the parent reads from one pipe of the child. The pipes are opened with
  \<^verbatim>\<open>text=True\<close>, so what the child writes is decoded strictly. \<open>Text t\<close>: all of it
  decodes, and \<open>t\<close> is the decoded text as the child wrote it, before the translation of
  newlines. \<open>Fails ls tx\<close>: \<^verbatim>\<open>readline\<close> returns the strings \<open>ls\<close>, one call after the other,
  and the call after them raises an exception with text \<open>tx\<close> (a \<^verbatim>\<open>UnicodeDecodeError\<close>
  on bytes that are not valid in the encoding; how many lines are returned before it
  depends on how the child's output arrives).
\<close>

datatype stream = Text string | Fails "string list" string

text \<open>
  What one call of \<^verbatim>\<open>subprocess.Popen\<close> leads to: the launch raises; or the child runs,
  writes to its standard output and standard error, closes both and exits with the given
  status; or the child never closes its streams or never exits, so that the reading
  loops or \<^verbatim>\<open>process.wait()\<close> block for ever.
\<close>

datatype child =
    LaunchFails string
  | Exits stream stream int
  | Hangs

text \<open>
  The environment: \<open>open_error\<close> is the text of the exception that opening a path for
  appending raises (\<open>None\<close> when the path is writable); \<open>popen e n cmd\<close> is the outcome of
  the launch number \<open>n\<close> of the run, with command \<open>cmd\<close>; \<open>repr_list\<close> is Python's
  rendering of a list of strings and \<open>signal_name\<close> the platform's table of signal names,
  both used by \<^verbatim>\<open>CalledProcessError.__str__\<close>.
\<close>

record env =
  open_error :: "string \<Rightarrow> string option"
  popen :: "nat \<Rightarrow> string list \<Rightarrow> child"
  repr_list :: "string list \<Rightarrow> string"
  signal_name :: "nat \<Rightarrow> string option"

subsection \<open>Module globals and observable outputs\<close>

text \<open>
  \<open>records\<close> is the sequence of records the logger accepted and handed to its handlers;
  \<open>file_records\<close> and \<open>console_records\<close> are what the two handlers wrote; \<open>launched\<close>
  is the sequence of commands passed to \<^verbatim>\<open>subprocess.Popen\<close>.
\<close>

record state =
  HOME_DIR :: string
  BACKUP_LOCATIONS :: "(string \<times> string) list"
  ARGS :: "string list"
  HOME_ARGS :: "string list"
  logger :: logger
  console_logging :: handler
  records :: "log_record list"
  file_records :: "log_record list"
  console_records :: "log_record list"
  launched :: "string list list"






subsection \<open>The logging library, as far as the script uses it\<close>



text \<open>
  \<^verbatim>\<open>Logger.addHandler\<close> appends the handler unless it is already in the list;
  \<^verbatim>\<open>Logger.removeHandler\<close> removes it if it is there.
\<close>

definition addHandler :: "handler \<Rightarrow> logger \<Rightarrow> logger" where
  "addHandler h lg = (if h \<in> set (hdlrs lg) then lg else lg\<lparr>hdlrs := hdlrs lg @ [h]\<rparr>)"

definition removeHandler :: "handler \<Rightarrow> logger \<Rightarrow> logger" where
  "removeHandler h lg = (if h \<in> set (hdlrs lg) then lg\<lparr>hdlrs := remove1 h (hdlrs lg)\<rparr> else lg)"

text \<open>
  \<^verbatim>\<open>Handler.emit\<close>. The file handler was created with \<^verbatim>\<open>delay=True\<close>: it opens its file
  when it writes, and an exception raised there is passed to \<^verbatim>\<open>handleError\<close>, which does
  not raise it again, so the record is lost for the file and the caller goes on.
\<close>

fun emit :: "env \<Rightarrow> log_record \<Rightarrow> handler \<Rightarrow> state \<Rightarrow> state" where
  "emit e r (RotatingFile f m b l) s =
     (case open_error e f of
        None \<Rightarrow> s\<lparr>file_records := file_records s @ [r]\<rparr>
      | Some txt \<Rightarrow> s)"
| "emit e r (Stream l) s = s\<lparr>console_records := console_records s @ [r]\<rparr>"

definition handle :: "env \<Rightarrow> log_record \<Rightarrow> state \<Rightarrow> handler \<Rightarrow> state" where
  "handle e r s h = (if levelno (hlevel h) \<le> levelno (levelname r) then emit e r h s else s)"

definition callHandlers :: "env \<Rightarrow> log_record \<Rightarrow> state \<Rightarrow> state" where
  "callHandlers e r s = foldl (handle e r) s (hdlrs (logger s))"

definition logger_log :: "env \<Rightarrow> level \<Rightarrow> string \<Rightarrow> state \<Rightarrow> state" where
  "logger_log e lvl msg s =
     (let r = \<lparr>levelname = lvl, message = msg\<rparr>
      in if levelno (getEffectiveLevel (logger s)) \<le> levelno lvl
         then callHandlers e r (s\<lparr>records := records s @ [r]\<rparr>)
         else s)"

definition logger_debug :: "env \<Rightarrow> string \<Rightarrow> state \<Rightarrow> state" where
  "logger_debug e msg s = logger_log e DEBUG msg s"

definition logger_info :: "env \<Rightarrow> string \<Rightarrow> state \<Rightarrow> state" where
  "logger_info e msg s = logger_log e INFO msg s"

definition logger_error :: "env \<Rightarrow> string \<Rightarrow> state \<Rightarrow> state" where
  "logger_error e msg s = logger_log e ERROR msg s"

subsection \<open>\<^verbatim>\<open>setup_logging\<close> and \<^verbatim>\<open>console_output\<close>\<close>



definition console_output :: "env \<Rightarrow> bool \<Rightarrow> state \<Rightarrow> state" where
  "console_output e enabled s =
     (if enabled
      then logger_info e ''Console logging enabled''
             (s\<lparr>logger := addHandler (console_logging s) (logger s)\<rparr>)
      else logger_info e ''Console logging disabled''
             (s\<lparr>logger := removeHandler (console_logging s) (logger s)\<rparr>))"

subsection \<open>String helpers of the Python library\<close>

text \<open>\<^verbatim>\<open>sep.join(xs)\<close>.\<close>

fun str_join :: "string \<Rightarrow> string list \<Rightarrow> string" where
  "str_join sep [] = []"
| "str_join sep [x] = x"
| "str_join sep (x # y # ys) = x @ sep @ str_join sep (y # ys)"

text \<open>
  \<^verbatim>\<open>str.strip()\<close>: the characters below 256 for which \<^verbatim>\<open>str.isspace\<close> holds are removed
  at both ends.
\<close>

definition isspace :: "char \<Rightarrow> bool" where
  "isspace c = ((of_char c :: nat) \<in> {9, 10, 11, 12, 13, 28, 29, 30, 31, 32, 133, 160})"

definition strip :: "string \<Rightarrow> string" where
  "strip s = rev (dropWhile isspace (rev (dropWhile isspace s)))"

text \<open>
  A pipe opened with \<^verbatim>\<open>text=True\<close> is read with universal newlines: a carriage return
  followed by a line feed, and a carriage return alone, both reach the reader as one
  line feed.
\<close>

fun universal_newlines :: "string \<Rightarrow> string" where
  "universal_newlines [] = []"
| "universal_newlines [c] = (if c = CHR 0x0D then [CHR 0x0A] else [c])"
| "universal_newlines (c # d # ds) =
     (if c = CHR 0x0D
      then (if d = CHR 0x0A then CHR 0x0A # universal_newlines ds
            else CHR 0x0A # universal_newlines (d # ds))
      else c # universal_newlines (d # ds))"

text \<open>
  \<^verbatim>\<open>readline\<close> on a text stream whose remaining translated content is the argument: the
  line up to and including the next line feed (or the rest), and what remains; the empty
  string at the end of the stream.
\<close>

fun readline :: "string \<Rightarrow> string \<times> string" where
  "readline [] = ([], [])"
| "readline (c # cs) =
     (if c = CHR 0x0A then ([c], cs)
      else (case readline cs of (l, r) \<Rightarrow> (c # l, r)))"

text \<open>\<^verbatim>\<open>iter(stream.readline, "")\<close>: the lines read until \<^verbatim>\<open>readline\<close> returns \<^verbatim>\<open>""\<close>.\<close>

function iter_readline :: "string \<Rightarrow> string list" where
  "iter_readline stream =
     (case readline stream of (l, r) \<Rightarrow> if l = [] then [] else l # iter_readline r)"
  by pat_completeness auto
termination
proof (relation "measure length")
  show "wf (measure length)" by simp
next
  fix stream l r
  assume rd: "(l, r) = readline stream" and ne: "l \<noteq> []"
  have le: "length (snd (readline s)) \<le> length s" for s
    by (induction s) (auto split: prod.splits)
  from rd ne obtain c cs where sc: "stream = c # cs"
    by (cases stream) auto
  have "length r \<le> length cs"
  proof (cases "c = CHR 0x0A")
    case True
    with rd sc show ?thesis by simp
  next
    case False
    with rd sc have "r = snd (readline cs)"
      by (auto split: prod.splits)
    with le [of cs] show ?thesis by simp
  qed
  with sc show "(r, stream) \<in> measure length" by simp
qed

declare iter_readline.simps [simp del]

text \<open>
  The loop \<^verbatim>\<open>for line in iter(stream.readline, "")\<close>: \<open>lines_read\<close> is the sequence of
  lines the body of the loop is run for, and \<open>read_error\<close> the text of the exception that
  ends the loop, if one does. The loop ends without an exception at the first empty
  string that \<^verbatim>\<open>readline\<close> returns.
\<close>

fun lines_read :: "stream \<Rightarrow> string list" where
  "lines_read (Text t) = iter_readline (universal_newlines t)"
| "lines_read (Fails ls tx) = takeWhile (\<lambda>l. l \<noteq> []) ls"

fun read_error :: "stream \<Rightarrow> string option" where
  "read_error (Text t) = None"
| "read_error (Fails ls tx) = (if [] \<in> set ls then None else Some tx)"

text \<open>Decimal rendering of a number, as \<^verbatim>\<open>%d\<close> gives it.\<close>

fun str_nat :: "nat \<Rightarrow> string" where
  "str_nat n =
     (if n < 10 then [char_of (48 + n)]
      else str_nat (n div 10) @ [char_of (48 + n mod 10)])"

declare str_nat.simps [simp del]

definition str_int :: "int \<Rightarrow> string" where
  "str_int i = (if i < 0 then CHR ''-'' # str_nat (nat (- i)) else str_nat (nat i))"

text \<open>
  \<^verbatim>\<open>str(e)\<close>. For \<^verbatim>\<open>CalledProcessError\<close>: a negative return code is a death by signal,
  rendered with the signal's name when the platform knows it.
\<close>

fun str_exn :: "env \<Rightarrow> exn \<Rightarrow> string" where
  "str_exn e (CalledProcessError returncode cmd) =
     (if returncode < 0
      then (case signal_name e (nat (- returncode)) of
              Some nm \<Rightarrow> ''Command '' @ [CHR 0x27] @ repr_list e cmd @ [CHR 0x27] @ '' died with <Signals.''
                          @ nm @ '': '' @ str_nat (nat (- returncode)) @ ''>.''
            | None \<Rightarrow> ''Command '' @ [CHR 0x27] @ repr_list e cmd @ [CHR 0x27] @ '' died with unknown signal ''
                          @ str_nat (nat (- returncode)) @ ''.'')
      else ''Command '' @ [CHR 0x27] @ repr_list e cmd @ [CHR 0x27] @ '' returned non-zero exit status ''
             @ str_int returncode @ ''.'')"
| "str_exn e (Exception txt) = txt"

subsection \<open>\<^verbatim>\<open>rclone_sync\<close>\<close>

text \<open>
  The body of the \<^verbatim>\<open>try\<close> block: \<open>None\<close> when it never returns, \<open>Inl\<close> with the exception
  and the state at the raise, \<open>Inr\<close> when it runs to its end. An exception raised by
  \<^verbatim>\<open>readline\<close> leaves the block before the other stream is read and before
  \<^verbatim>\<open>process.wait()\<close>.
\<close>

definition rclone_sync_try ::
  "env \<Rightarrow> string \<Rightarrow> string \<Rightarrow> string list \<Rightarrow> state \<Rightarrow> (exn \<times> state + state) option" where
  "rclone_sync_try e source destination command s =
     (let s1 = s\<lparr>launched := launched s @ [command]\<rparr>
      in case popen e (length (launched s)) command of
           LaunchFails txt \<Rightarrow> Some (Inl (Exception txt, s1))
         | Hangs \<Rightarrow> None
         | Exits out err return_code \<Rightarrow>
             (let s2 = foldl (\<lambda>t stdout_line. logger_debug e (strip stdout_line) t) s1 (lines_read out)
              in case read_error out of
                   Some tx \<Rightarrow> Some (Inl (Exception tx, s2))
                 | None \<Rightarrow>
                     (let s3 = foldl (\<lambda>t stderr_line. logger_debug e (strip stderr_line) t) s2
                                 (lines_read err)
                      in case read_error err of
                           Some tx \<Rightarrow> Some (Inl (Exception tx, s3))
                         | None \<Rightarrow>
                             if return_code \<noteq> 0
                             then Some (Inl (CalledProcessError return_code command, s3))
                             else Some (Inr (logger_info e
                                    (''Sync completed for '' @ source @ '' to '' @ destination) s3)))))"

text \<open>
  The exception raised at a non-zero return code is built from the return code and the
  command only, so its \<^verbatim>\<open>stdout\<close> and \<^verbatim>\<open>stderr\<close> attributes are \<^verbatim>\<open>None\<close>.
\<close>

definition rclone_sync :: "env \<Rightarrow> string \<Rightarrow> string \<Rightarrow> string list option \<Rightarrow> state \<Rightarrow> state option" where
  "rclone_sync e source destination args s =
     (let command = [''rclone'', ''sync'', source, destination]
                      @ (case args of None \<Rightarrow> [] | Some a \<Rightarrow> a);
          s0 = logger_info e (''Running command: '' @ str_join '' '' command) s
      in case rclone_sync_try e source destination command s0 of
           None \<Rightarrow> None
         | Some (Inr s') \<Rightarrow> Some s'
         | Some (Inl (CalledProcessError rc cmd, s')) \<Rightarrow>
             Some (logger_error e ''stderr: None''
                    (logger_error e ''stdout: None''
                      (logger_error e (''Error syncing '' @ source @ '' to '' @ destination @ '': ''
                                         @ str_exn e (CalledProcessError rc cmd)) s')))
         | Some (Inl (Exception txt, s')) \<Rightarrow>
             Some (logger_error e (''An error occurred: '' @ str_exn e (Exception txt)) s'))"

subsection \<open>\<^verbatim>\<open>main\<close> and the module\<close>

text \<open>
  The loop of \<^verbatim>\<open>main\<close> over the items of \<^verbatim>\<open>BACKUP_LOCATIONS\<close>, in insertion order.
  \<^verbatim>\<open>ARGS.extend(HOME_ARGS)\<close> changes the global list, and the changed list is what the
  later iterations read.
\<close>

fun main_loop :: "env \<Rightarrow> (string \<times> string) list \<Rightarrow> state \<Rightarrow> state option" where
  "main_loop e [] s = Some s"
| "main_loop e ((source, destination) # rest) s =
     (let s1 = (if source = HOME_DIR s then s\<lparr>ARGS := ARGS s @ HOME_ARGS s\<rparr> else s);
          s2 = logger_info e (''Syncing '' @ source @ '' to '' @ destination) s1
      in case rclone_sync e source destination (Some (ARGS s2)) s2 of
           None \<Rightarrow> None
         | Some s3 \<Rightarrow> main_loop e rest s3)"

text \<open>
  \<open>elapsed\<close> is the text of \<^verbatim>\<open>{elapsed_time:.2f}\<close>, a floating-point rendering of the
  wall-clock time, given from outside.
\<close>

definition main :: "env \<Rightarrow> string \<Rightarrow> state \<Rightarrow> state option" where
  "main e elapsed s =
     (case main_loop e (BACKUP_LOCATIONS s) s of
        None \<Rightarrow> None
      | Some s' \<Rightarrow> Some (logger_info e (''Backup process completed in '' @ elapsed @ '' minutes'') s'))"

text \<open>
  The call \<^verbatim>\<open>main()\<close> as an expression. The body of \<^verbatim>\<open>main\<close> has no \<^verbatim>\<open>return\<close>
  statement: a call that ends has the value \<^verbatim>\<open>None\<close>, and what the run did is in the
  globals and in the log.
\<close>

datatype pyvalue = PyNone | PyBool bool | PyInt int | PyStr string


text \<open>The module's globals as the source defines them, once logging is set up.\<close>

definition module_globals :: "logger \<Rightarrow> handler \<Rightarrow> state" where
  "module_globals lg console =
     \<lparr>HOME_DIR = ''/home/siskourso/'',
      BACKUP_LOCATIONS =
        [(''/home/siskourso/Downloads/'', ''gdrive:/Backups/-Orion-/Downloads/''),
         (''/home/siskourso/Working/'', ''gdrive:/Backups/-Orion-/Working/''),
         (''/home/siskourso/'', ''gdrive:/Backups/-Orion-/Home/'')],
      ARGS = [''--transfers=10'', ''--progress'', ''--verbose'', ''--exclude=*/*.log'',
              ''--drive-chunk-size=64M''],
      HOME_ARGS = [''--exclude=.*/'', ''--exclude=.*'', ''--exclude=*/*.log'',
                   ''--exclude=Downloads/'', ''--exclude=Working/'', ''--exclude=Templates/'',
                   ''--exclude=Public/'', ''--exclude=go/'', ''--exclude=Desktop/'',
                   ''--exclude=gPodder/'', ''--exclude=snap/'',
                   ''--exclude=Documents/test.pcapng''],
      logger = lg,
      console_logging = console,
      records = [],
      file_records = [],
      console_records = [],
      launched = []\<rparr>"


subsection \<open>A concrete environment and state\<close>

text \<open>
  An environment in which the log file is writable, launch 0 exits with 0 after writing
  two lines to its standard output (the first ended by a carriage return and a line
  feed) and one to its standard error, launch 1 exits with 1, launch 2 cannot be started,
  launch 3 is killed by signal 9, and every later launch exits with 0; and the state of
  the module after \<^verbatim>\<open>setup_logging()\<close>.
\<close>

definition env_demo :: env where
  "env_demo =
     \<lparr>open_error = (\<lambda>f. None),
      popen = (\<lambda>n cmd.
         if n = 0 then Exits (Text (''Transferred: 1'' @ [CHR 0x0D, CHR 0x0A] @ ''Checks: 2\<newline>''))
                             (Text ''NOTICE: done\<newline>'') 0
         else if n = 1 then Exits (Text ''partial\<newline>'') (Text ''ERROR: quota\<newline>'') 1
         else if n = 2 then LaunchFails ''[Errno 2] No such file or directory: rclone''
         else if n = 3 then Exits (Text []) (Text []) (- 9)
         else Exits (Text []) (Text []) 0),
      repr_list = (\<lambda>xs. ''['' @ str_join '', '' xs @ '']''),
      signal_name = (\<lambda>n. if n = 9 then Some ''SIGKILL'' else None)\<rparr>"

definition demo_state :: state where
  "demo_state =
     module_globals
       \<lparr>level = DEBUG,
        hdlrs = [RotatingFile ''pyBackup.log'' 104857600 5 DEBUG, Stream DEBUG]\<rparr>
       (Stream DEBUG)"


definition demo_state2 :: state where
  "demo_state2 = demo_state\<lparr>launched := [[''rclone''], [''rclone'']]\<rparr>"

text \<open>The same state with three pairs configured, the home directory in the middle.\<close>

definition demo_state_AHB :: state where
  "demo_state_AHB =
     demo_state\<lparr>BACKUP_LOCATIONS :=
       [(''/srv/a/'', ''remote:/a/''),
        (''/home/siskourso/'', ''remote:/home/''),
        (''/srv/b/'', ''remote:/b/'')]\<rparr>"




section \<open>Frame and trace lemmas\<close>

text \<open>Logging changes the three record sequences only.\<close>

lemma emit_frame:
  "HOME_DIR (emit e r h s) = HOME_DIR s"
  "BACKUP_LOCATIONS (emit e r h s) = BACKUP_LOCATIONS s"
  "ARGS (emit e r h s) = ARGS s"
  "HOME_ARGS (emit e r h s) = HOME_ARGS s"
  "logger (emit e r h s) = logger s"
  "console_logging (emit e r h s) = console_logging s"
  "records (emit e r h s) = records s"
  "launched (emit e r h s) = launched s"
  by (cases h; simp split: option.splits)+

lemma handle_frame:
  "HOME_DIR (handle e r s h) = HOME_DIR s"
  "BACKUP_LOCATIONS (handle e r s h) = BACKUP_LOCATIONS s"
  "ARGS (handle e r s h) = ARGS s"
  "HOME_ARGS (handle e r s h) = HOME_ARGS s"
  "logger (handle e r s h) = logger s"
  "console_logging (handle e r s h) = console_logging s"
  "records (handle e r s h) = records s"
  "launched (handle e r s h) = launched s"
  by (simp_all add: handle_def emit_frame)

lemma foldl_handle_frame:
  "HOME_DIR (foldl (handle e r) s hs) = HOME_DIR s"
  "BACKUP_LOCATIONS (foldl (handle e r) s hs) = BACKUP_LOCATIONS s"
  "ARGS (foldl (handle e r) s hs) = ARGS s"
  "HOME_ARGS (foldl (handle e r) s hs) = HOME_ARGS s"
  "logger (foldl (handle e r) s hs) = logger s"
  "console_logging (foldl (handle e r) s hs) = console_logging s"
  "records (foldl (handle e r) s hs) = records s"
  "launched (foldl (handle e r) s hs) = launched s"
  by (induction hs arbitrary: s; simp add: handle_frame)+

lemma logger_log_frame:
  "HOME_DIR (logger_log e lvl msg s) = HOME_DIR s"
  "BACKUP_LOCATIONS (logger_log e lvl msg s) = BACKUP_LOCATIONS s"
  "ARGS (logger_log e lvl msg s) = ARGS s"
  "HOME_ARGS (logger_log e lvl msg s) = HOME_ARGS s"
  "logger (logger_log e lvl msg s) = logger s"
  "console_logging (logger_log e lvl msg s) = console_logging s"
  "launched (logger_log e lvl msg s) = launched s"
  by (simp_all add: logger_log_def callHandlers_def foldl_handle_frame Let_def)

lemma logger_log_records:
  "records (logger_log e lvl msg s) =
     (if levelno (getEffectiveLevel (logger s)) \<le> levelno lvl
      then records s @ [\<lparr>levelname = lvl, message = msg\<rparr>] else records s)"
  by (simp add: logger_log_def callHandlers_def foldl_handle_frame Let_def)

lemmas log_frame =
  logger_log_frame [of _ DEBUG, folded logger_debug_def]
  logger_log_frame [of _ INFO, folded logger_info_def]
  logger_log_frame [of _ ERROR, folded logger_error_def]

lemma foldl_debug_frame:
  "HOME_DIR (foldl (\<lambda>t x. logger_debug e (f x) t) s xs) = HOME_DIR s"
  "BACKUP_LOCATIONS (foldl (\<lambda>t x. logger_debug e (f x) t) s xs) = BACKUP_LOCATIONS s"
  "ARGS (foldl (\<lambda>t x. logger_debug e (f x) t) s xs) = ARGS s"
  "HOME_ARGS (foldl (\<lambda>t x. logger_debug e (f x) t) s xs) = HOME_ARGS s"
  "logger (foldl (\<lambda>t x. logger_debug e (f x) t) s xs) = logger s"
  "console_logging (foldl (\<lambda>t x. logger_debug e (f x) t) s xs) = console_logging s"
  "launched (foldl (\<lambda>t x. logger_debug e (f x) t) s xs) = launched s"
  by (induction xs arbitrary: s; simp add: log_frame)+

lemma foldl_debug_records:
  "records (foldl (\<lambda>t x. logger_debug e (f x) t) s xs) =
     (if levelno (getEffectiveLevel (logger s)) \<le> levelno DEBUG
      then records s @ map (\<lambda>x. \<lparr>levelname = DEBUG, message = f x\<rparr>) xs else records s)"
  by (induction xs arbitrary: s) (simp_all add: logger_debug_def logger_log_records logger_log_frame)


lemma rclone_sync_LaunchFails:
  assumes "popen e (length (launched s))
             ([''rclone'', ''sync'', source, destination] @ (case args of None \<Rightarrow> [] | Some a \<Rightarrow> a))
           = LaunchFails txt"
  shows "rclone_sync e source destination args s =
         Some (logger_error e (''An error occurred: '' @ txt)
           ((logger_info e (''Running command: '' @ str_join '' ''
               ([''rclone'', ''sync'', source, destination] @ (case args of None \<Rightarrow> [] | Some a \<Rightarrow> a))) s)
             \<lparr>launched := launched s @
               [[''rclone'', ''sync'', source, destination] @ (case args of None \<Rightarrow> [] | Some a \<Rightarrow> a)]\<rparr>))"
  using assms by (simp add: rclone_sync_def rclone_sync_try_def Let_def log_frame)

lemma rclone_sync_Hangs:
  assumes "popen e (length (launched s))
             ([''rclone'', ''sync'', source, destination] @ (case args of None \<Rightarrow> [] | Some a \<Rightarrow> a))
           = Hangs"
  shows "rclone_sync e source destination args s = None"
  using assms by (simp add: rclone_sync_def rclone_sync_try_def Let_def log_frame)

lemma rclone_sync_stdout_fails:
  assumes "popen e (length (launched s))
             ([''rclone'', ''sync'', source, destination] @ (case args of None \<Rightarrow> [] | Some a \<Rightarrow> a))
           = Exits out err rc" and "read_error out = Some tx"
  shows "rclone_sync e source destination args s =
         Some (logger_error e (''An error occurred: '' @ tx)
           (foldl (\<lambda>t l. logger_debug e (strip l) t)
             ((logger_info e (''Running command: '' @ str_join '' ''
                 ([''rclone'', ''sync'', source, destination] @ (case args of None \<Rightarrow> [] | Some a \<Rightarrow> a))) s)
               \<lparr>launched := launched s @
                 [[''rclone'', ''sync'', source, destination] @ (case args of None \<Rightarrow> [] | Some a \<Rightarrow> a)]\<rparr>)
             (lines_read out)))"
  using assms by (simp add: rclone_sync_def rclone_sync_try_def Let_def log_frame)

lemma rclone_sync_stderr_fails:
  assumes "popen e (length (launched s))
             ([''rclone'', ''sync'', source, destination] @ (case args of None \<Rightarrow> [] | Some a \<Rightarrow> a))
           = Exits out err rc" and "read_error out = None" and "read_error err = Some tx"
  shows "rclone_sync e source destination args s =
         Some (logger_error e (''An error occurred: '' @ tx)
           (foldl (\<lambda>t l. logger_debug e (strip l) t)
             (foldl (\<lambda>t l. logger_debug e (strip l) t)
               ((logger_info e (''Running command: '' @ str_join '' ''
                   ([''rclone'', ''sync'', source, destination] @ (case args of None \<Rightarrow> [] | Some a \<Rightarrow> a))) s)
                 \<lparr>launched := launched s @
                   [[''rclone'', ''sync'', source, destination] @ (case args of None \<Rightarrow> [] | Some a \<Rightarrow> a)]\<rparr>)
               (lines_read out))
             (lines_read err)))"
  using assms by (simp add: rclone_sync_def rclone_sync_try_def Let_def log_frame)



lemma rclone_sync_Exits_zero:
  assumes "popen e (length (launched s))
             ([''rclone'', ''sync'', source, destination] @ (case args of None \<Rightarrow> [] | Some a \<Rightarrow> a))
           = Exits out err 0" and "read_error out = None" and "read_error err = None"
  shows "rclone_sync e source destination args s =
         Some (logger_info e (''Sync completed for '' @ source @ '' to '' @ destination)
           (foldl (\<lambda>t l. logger_debug e (strip l) t)
             (foldl (\<lambda>t l. logger_debug e (strip l) t)
               ((logger_info e (''Running command: '' @ str_join '' ''
                   ([''rclone'', ''sync'', source, destination] @ (case args of None \<Rightarrow> [] | Some a \<Rightarrow> a))) s)
                 \<lparr>launched := launched s @
                   [[''rclone'', ''sync'', source, destination] @ (case args of None \<Rightarrow> [] | Some a \<Rightarrow> a)]\<rparr>)
               (lines_read out))
             (lines_read err)))"
  using assms by (simp add: rclone_sync_def rclone_sync_try_def Let_def log_frame)

lemma rclone_sync_Exits_nonzero:
  assumes "popen e (length (launched s))
             ([''rclone'', ''sync'', source, destination] @ (case args of None \<Rightarrow> [] | Some a \<Rightarrow> a))
           = Exits out err rc" and "read_error out = None" and "read_error err = None"
      and "rc \<noteq> 0"
  shows "rclone_sync e source destination args s =
         Some (logger_error e ''stderr: None''
           (logger_error e ''stdout: None''
             (logger_error e (''Error syncing '' @ source @ '' to '' @ destination @ '': '' @
                 str_exn e (CalledProcessError rc
                   ([''rclone'', ''sync'', source, destination] @ (case args of None \<Rightarrow> [] | Some a \<Rightarrow> a))))
           (foldl (\<lambda>t l. logger_debug e (strip l) t)
             (foldl (\<lambda>t l. logger_debug e (strip l) t)
               ((logger_info e (''Running command: '' @ str_join '' ''
                   ([''rclone'', ''sync'', source, destination] @ (case args of None \<Rightarrow> [] | Some a \<Rightarrow> a))) s)
                 \<lparr>launched := launched s @
                   [[''rclone'', ''sync'', source, destination] @ (case args of None \<Rightarrow> [] | Some a \<Rightarrow> a)]\<rparr>)
               (lines_read out))
             (lines_read err)))))"
  using assms by (simp add: rclone_sync_def rclone_sync_try_def Let_def log_frame)

lemma rclone_sync_frame:
  assumes "rclone_sync e source destination args s = Some s'"
  shows "HOME_DIR s' = HOME_DIR s \<and> BACKUP_LOCATIONS s' = BACKUP_LOCATIONS s \<and> ARGS s' = ARGS s
       \<and> HOME_ARGS s' = HOME_ARGS s \<and> logger s' = logger s \<and> console_logging s' = console_logging s
       \<and> launched s' = launched s @
           [[''rclone'', ''sync'', source, destination] @ (case args of None \<Rightarrow> [] | Some a \<Rightarrow> a)]"
proof -
  define ch where "ch = popen e (length (launched s))
    ([''rclone'', ''sync'', source, destination] @ (case args of None \<Rightarrow> [] | Some a \<Rightarrow> a))"
  show ?thesis
  proof (cases ch)
    case (LaunchFails tx)
    with assms show ?thesis
      unfolding ch_def by (auto simp: rclone_sync_LaunchFails log_frame)
  next
    case (Exits out err rc)
    note ch = Exits [unfolded ch_def]
    show ?thesis
    proof (cases "read_error out")
      case (Some tx)
      with assms ch show ?thesis
        by (auto simp: rclone_sync_stdout_fails log_frame foldl_debug_frame)
    next
      case None
      note o = None
      show ?thesis
      proof (cases "read_error err")
        case (Some tx)
        with assms ch o show ?thesis
          by (auto simp: rclone_sync_stderr_fails log_frame foldl_debug_frame)
      next
        case None
        with assms ch o show ?thesis
          by (cases "rc = 0")
             (auto simp: rclone_sync_Exits_zero rclone_sync_Exits_nonzero log_frame foldl_debug_frame)
      qed
    qed
  next
    case Hangs
    with assms show ?thesis
      unfolding ch_def by (simp add: rclone_sync_Hangs)
  qed
qed

lemma rclone_sync_returns:
  assumes "popen e (length (launched s))
             ([''rclone'', ''sync'', source, destination] @ (case args of None \<Rightarrow> [] | Some a \<Rightarrow> a))
           \<noteq> Hangs"
  shows "\<exists>s'. rclone_sync e source destination args s = Some s'"
proof -
  define ch where "ch = popen e (length (launched s))
    ([''rclone'', ''sync'', source, destination] @ (case args of None \<Rightarrow> [] | Some a \<Rightarrow> a))"
  show ?thesis
  proof (cases ch)
    case (LaunchFails tx)
    then show ?thesis
      unfolding ch_def by (simp add: rclone_sync_LaunchFails)
  next
    case (Exits out err rc)
    note ch = Exits [unfolded ch_def]
    show ?thesis
    proof (cases "read_error out")
      case (Some tx)
      with ch show ?thesis
        by (simp add: rclone_sync_stdout_fails)
    next
      case None
      note o = None
      show ?thesis
      proof (cases "read_error err")
        case (Some tx)
        with ch o show ?thesis
          by (simp add: rclone_sync_stderr_fails)
      next
        case None
        with ch o show ?thesis
          by (cases "rc = 0") (simp_all add: rclone_sync_Exits_zero rclone_sync_Exits_nonzero)
      qed
    qed
  next
    case Hangs
    with assms show ?thesis
      unfolding ch_def by simp
  qed
qed


lemma readline_concat: "readline s = (l, r) \<Longrightarrow> l @ r = s"
  by (induction s arbitrary: l r) (auto split: if_splits prod.splits)

lemma readline_empty: "readline s = ([], r) \<Longrightarrow> s = []"
  by (cases s) (auto split: if_splits prod.splits)

lemma iter_readline_Nil: "iter_readline [] = []"
  by (simp add: iter_readline.simps [of "[]"])

lemma concat_iter_readline: "concat (iter_readline stream) = stream"
proof (induction stream rule: iter_readline.induct)
  case (1 stream)
  obtain l r where lr: "readline stream = (l, r)"
    by (cases "readline stream")
  show ?case
  proof (cases "l = []")
    case True
    with lr have "stream = []" by (simp add: readline_empty)
    then show ?thesis by (simp add: iter_readline_Nil)
  next
    case False
    with lr 1 [of l r] readline_concat [OF lr] show ?thesis
      by (simp add: iter_readline.simps [of stream])
  qed
qed

text \<open>The lines that the reading loop sees.\<close>

lemma readline_last: "readline s = (l, r) \<Longrightarrow> r \<noteq> [] \<Longrightarrow> last l = CHR 0x0A"
proof (induction s arbitrary: l r)
  case Nil
  then show ?case by simp
next
  case (Cons c cs)
  show ?case
  proof (cases "c = CHR 0x0A")
    case True
    with Cons.prems show ?thesis by auto
  next
    case False
    obtain l' r' where lr: "readline cs = (l', r')"
      by (cases "readline cs")
    with False Cons.prems have eq: "l = c # l'" "r = r'"
      by simp_all
    with Cons.prems(2) have "r' \<noteq> []" by simp
    from Cons.IH [OF lr this] have last: "last l' = CHR 0x0A" .
    have "l' \<noteq> []"
    proof
      assume "l' = []"
      with lr have "cs = []" by (simp add: readline_empty)
      with lr have "r' = []" by simp
      with \<open>r' \<noteq> []\<close> show False by simp
    qed
    with last eq show ?thesis by simp
  qed
qed

lemma readline_inner: "readline s = (l, r) \<Longrightarrow> CHR 0x0A \<notin> set (butlast l)"
proof (induction s arbitrary: l r)
  case Nil
  then show ?case by simp
next
  case (Cons c cs)
  show ?case
  proof (cases "c = CHR 0x0A")
    case True
    with Cons.prems show ?thesis by auto
  next
    case False
    obtain l' r' where lr: "readline cs = (l', r')"
      by (cases "readline cs")
    with False Cons.prems have eq: "l = c # l'"
      by simp
    from Cons.IH [OF lr] False eq show ?thesis
      by simp
  qed
qed

lemma iter_readline_lines:
  "(\<forall>l \<in> set (iter_readline stream). l \<noteq> [] \<and> CHR 0x0A \<notin> set (butlast l))
   \<and> (\<forall>l \<in> set (butlast (iter_readline stream)). last l = CHR 0x0A)"
proof (induction stream rule: iter_readline.induct)
  case (1 stream)
  obtain l r where lr: "readline stream = (l, r)"
    by (cases "readline stream")
  show ?case
  proof (cases "l = []")
    case True
    with lr show ?thesis
      by (simp add: iter_readline.simps [of stream])
  next
    case False
    have it: "iter_readline stream = l # iter_readline r"
      using lr False by (simp add: iter_readline.simps [of stream])
    from 1 [of l r] lr False
    have ih: "\<forall>l \<in> set (iter_readline r). l \<noteq> [] \<and> CHR 0x0A \<notin> set (butlast l)"
      "\<forall>l \<in> set (butlast (iter_readline r)). last l = CHR 0x0A"
      by simp_all
    have "last l = CHR 0x0A" if "iter_readline r \<noteq> []"
    proof -
      from that have "r \<noteq> []"
        by (auto simp: iter_readline_Nil)
      with lr show ?thesis by (rule readline_last)
    qed
    with ih False readline_inner [OF lr] show ?thesis
      unfolding it by simp
  qed
qed

lemma lines_read_Text:
  "read_error (Text t) = None"
  "concat (lines_read (Text t)) = universal_newlines t"
  "\<forall>l \<in> set (lines_read (Text t)). l \<noteq> [] \<and> CHR 0x0A \<notin> set (butlast l)"
  "\<forall>l \<in> set (butlast (lines_read (Text t))). last l = CHR 0x0A"
  using iter_readline_lines [of "universal_newlines t"]
  by (simp_all add: concat_iter_readline)


lemma logger_info_records_ex:
  "\<exists>p. records (logger_info e msg s) = records s @ p
       \<and> set p \<subseteq> {\<lparr>levelname = INFO, message = msg\<rparr>}"
  by (simp add: logger_info_def logger_log_records)

text \<open>
  The loop of \<^verbatim>\<open>main\<close>, one iteration at a time, when no child blocks for ever.
\<close>

lemma main_loop_Cons:
  assumes "\<forall>n c. popen e n c \<noteq> Hangs"
  shows "\<exists>s1. main_loop e ((x, y) # rest) s = main_loop e rest s1
           \<and> ARGS s1 = (if x = HOME_DIR s then ARGS s @ HOME_ARGS s else ARGS s)
           \<and> launched s1 = launched s @ [[''rclone'', ''sync'', x, y] @ ARGS s1]
           \<and> HOME_DIR s1 = HOME_DIR s \<and> HOME_ARGS s1 = HOME_ARGS s
           \<and> BACKUP_LOCATIONS s1 = BACKUP_LOCATIONS s
           \<and> logger s1 = logger s \<and> console_logging s1 = console_logging s"
proof -
  define s2 where "s2 = logger_info e (''Syncing '' @ x @ '' to '' @ y)
                          (if x = HOME_DIR s then s\<lparr>ARGS := ARGS s @ HOME_ARGS s\<rparr> else s)"
  have fr2: "ARGS s2 = (if x = HOME_DIR s then ARGS s @ HOME_ARGS s else ARGS s)"
    "launched s2 = launched s" "HOME_DIR s2 = HOME_DIR s" "HOME_ARGS s2 = HOME_ARGS s"
    "BACKUP_LOCATIONS s2 = BACKUP_LOCATIONS s" "logger s2 = logger s"
    "console_logging s2 = console_logging s"
    by (simp_all add: s2_def log_frame)
  from assms have "popen e (length (launched s2))
      ([''rclone'', ''sync'', x, y] @ (case Some (ARGS s2) of None \<Rightarrow> [] | Some a \<Rightarrow> a)) \<noteq> Hangs"
    by blast
  from rclone_sync_returns [OF this]
  obtain s3 where run: "rclone_sync e x y (Some (ARGS s2)) s2 = Some s3"
    by blast
  have ml: "main_loop e ((x, y) # rest) s = main_loop e rest s3"
    using run by (simp add: Let_def s2_def)
  from rclone_sync_frame [OF run] fr2 ml show ?thesis
    by (intro exI [of _ s3]) simp
qed

lemma main_loop_no_home:
  assumes "\<forall>n c. popen e n c \<noteq> Hangs" and "HOME_DIR s \<notin> fst ` set pairs"
  shows "\<exists>s'. main_loop e pairs s = Some s'
           \<and> launched s' = launched s @ map (\<lambda>(x, y). [''rclone'', ''sync'', x, y] @ ARGS s) pairs
           \<and> ARGS s' = ARGS s
           \<and> HOME_DIR s' = HOME_DIR s \<and> HOME_ARGS s' = HOME_ARGS s
           \<and> BACKUP_LOCATIONS s' = BACKUP_LOCATIONS s
           \<and> logger s' = logger s \<and> console_logging s' = console_logging s"
  using assms(2)
proof (induction pairs arbitrary: s)
  case Nil
  then show ?case by simp
next
  case (Cons p pairs)
  obtain x y where p: "p = (x, y)" by (cases p)
  with Cons.prems have ne: "x \<noteq> HOME_DIR s" and rest: "HOME_DIR s \<notin> fst ` set pairs"
    by auto
  from main_loop_Cons [OF assms(1), of x y pairs s] ne
  obtain s1 where s1: "main_loop e ((x, y) # pairs) s = main_loop e pairs s1"
    "ARGS s1 = ARGS s" "launched s1 = launched s @ [[''rclone'', ''sync'', x, y] @ ARGS s1]"
    "HOME_DIR s1 = HOME_DIR s" "HOME_ARGS s1 = HOME_ARGS s"
    "BACKUP_LOCATIONS s1 = BACKUP_LOCATIONS s"
    "logger s1 = logger s" "console_logging s1 = console_logging s"
    by auto
  from rest s1(4) have "HOME_DIR s1 \<notin> fst ` set pairs" by simp
  from Cons.IH [OF this] obtain s' where s': "main_loop e pairs s1 = Some s'"
    "launched s' = launched s1 @ map (\<lambda>(x, y). [''rclone'', ''sync'', x, y] @ ARGS s1) pairs"
    "ARGS s' = ARGS s1" "HOME_DIR s' = HOME_DIR s1" "HOME_ARGS s' = HOME_ARGS s1"
    "BACKUP_LOCATIONS s' = BACKUP_LOCATIONS s1"
    "logger s' = logger s1" "console_logging s' = console_logging s1"
    by blast
  show ?case
    unfolding p using s1 s' by (intro exI [of _ s']) simp
qed

lemma main_loop_with_home:
  assumes "\<forall>n c. popen e n c \<noteq> Hangs"
      and "HOME_DIR s \<notin> fst ` set pre" and "HOME_DIR s \<notin> fst ` set post"
  shows "\<exists>s'. main_loop e (pre @ (HOME_DIR s, d) # post) s = Some s'
           \<and> launched s' = launched s
               @ map (\<lambda>(x, y). [''rclone'', ''sync'', x, y] @ ARGS s) pre
               @ [[''rclone'', ''sync'', HOME_DIR s, d] @ ARGS s @ HOME_ARGS s]
               @ map (\<lambda>(x, y). [''rclone'', ''sync'', x, y] @ ARGS s @ HOME_ARGS s) post
           \<and> ARGS s' = ARGS s @ HOME_ARGS s
           \<and> HOME_DIR s' = HOME_DIR s \<and> HOME_ARGS s' = HOME_ARGS s
           \<and> BACKUP_LOCATIONS s' = BACKUP_LOCATIONS s
           \<and> logger s' = logger s \<and> console_logging s' = console_logging s"
  using assms(2) assms(3)
proof (induction pre arbitrary: s)
  case Nil
  from main_loop_Cons [OF assms(1), of "HOME_DIR s" d post s]
  obtain s1 where s1: "main_loop e ((HOME_DIR s, d) # post) s = main_loop e post s1"
    "ARGS s1 = ARGS s @ HOME_ARGS s"
    "launched s1 = launched s @ [[''rclone'', ''sync'', HOME_DIR s, d] @ ARGS s1]"
    "HOME_DIR s1 = HOME_DIR s" "HOME_ARGS s1 = HOME_ARGS s"
    "BACKUP_LOCATIONS s1 = BACKUP_LOCATIONS s"
    "logger s1 = logger s" "console_logging s1 = console_logging s"
    by auto
  from Nil.prems s1(4) have "HOME_DIR s1 \<notin> fst ` set post" by simp
  from main_loop_no_home [OF assms(1) this]
  obtain s' where s': "main_loop e post s1 = Some s'"
    "launched s' = launched s1 @ map (\<lambda>(x, y). [''rclone'', ''sync'', x, y] @ ARGS s1) post"
    "ARGS s' = ARGS s1" "HOME_DIR s' = HOME_DIR s1" "HOME_ARGS s' = HOME_ARGS s1"
    "BACKUP_LOCATIONS s' = BACKUP_LOCATIONS s1"
    "logger s' = logger s1" "console_logging s' = console_logging s1"
    by blast
  show ?case
    using s1 s' by (intro exI [of _ s']) simp
next
  case (Cons p pre)
  obtain x y where p: "p = (x, y)" by (cases p)
  with Cons.prems have ne: "x \<noteq> HOME_DIR s" and rest: "HOME_DIR s \<notin> fst ` set pre"
    and post: "HOME_DIR s \<notin> fst ` set post"
    by auto
  from main_loop_Cons [OF assms(1), of x y "pre @ (HOME_DIR s, d) # post" s] ne
  obtain s1 where s1: "main_loop e ((x, y) # pre @ (HOME_DIR s, d) # post) s
                         = main_loop e (pre @ (HOME_DIR s, d) # post) s1"
    "ARGS s1 = ARGS s" "launched s1 = launched s @ [[''rclone'', ''sync'', x, y] @ ARGS s1]"
    "HOME_DIR s1 = HOME_DIR s" "HOME_ARGS s1 = HOME_ARGS s"
    "BACKUP_LOCATIONS s1 = BACKUP_LOCATIONS s"
    "logger s1 = logger s" "console_logging s1 = console_logging s"
    by auto
  from rest post s1(4) have "HOME_DIR s1 \<notin> fst ` set pre" "HOME_DIR s1 \<notin> fst ` set post"
    by simp_all
  from Cons.IH [OF this] s1(4)
  obtain s' where s': "main_loop e (pre @ (HOME_DIR s, d) # post) s1 = Some s'"
    "launched s' = launched s1
               @ map (\<lambda>(x, y). [''rclone'', ''sync'', x, y] @ ARGS s1) pre
               @ [[''rclone'', ''sync'', HOME_DIR s1, d] @ ARGS s1 @ HOME_ARGS s1]
               @ map (\<lambda>(x, y). [''rclone'', ''sync'', x, y] @ ARGS s1 @ HOME_ARGS s1) post"
    "ARGS s' = ARGS s1 @ HOME_ARGS s1" "HOME_DIR s' = HOME_DIR s1" "HOME_ARGS s' = HOME_ARGS s1"
    "BACKUP_LOCATIONS s' = BACKUP_LOCATIONS s1"
    "logger s' = logger s1" "console_logging s' = console_logging s1"
    by auto
  show ?case
    unfolding p using s1 s' by (intro exI [of _ s']) simp
qed

lemma main_loop_once_each:
  assumes "\<forall>n c. popen e n c \<noteq> Hangs"
  shows "\<exists>s' cs. main_loop e pairs s = Some s'
           \<and> launched s' = launched s @ cs
           \<and> map (take 4) cs = map (\<lambda>(x, y). [''rclone'', ''sync'', x, y]) pairs
           \<and> HOME_DIR s' = HOME_DIR s \<and> HOME_ARGS s' = HOME_ARGS s
           \<and> BACKUP_LOCATIONS s' = BACKUP_LOCATIONS s
           \<and> logger s' = logger s \<and> console_logging s' = console_logging s"
proof (induction pairs arbitrary: s)
  case Nil
  then show ?case by simp
next
  case (Cons p pairs)
  obtain x y where p: "p = (x, y)" by (cases p)
  from main_loop_Cons [OF assms(1), of x y pairs s]
  obtain s1 where s1: "main_loop e ((x, y) # pairs) s = main_loop e pairs s1"
    "launched s1 = launched s @ [[''rclone'', ''sync'', x, y] @ ARGS s1]"
    "HOME_DIR s1 = HOME_DIR s" "HOME_ARGS s1 = HOME_ARGS s"
    "BACKUP_LOCATIONS s1 = BACKUP_LOCATIONS s"
    "logger s1 = logger s" "console_logging s1 = console_logging s"
    by blast
  from Cons.IH [of s1] obtain s' cs where s': "main_loop e pairs s1 = Some s'"
    "launched s' = launched s1 @ cs"
    "map (take 4) cs = map (\<lambda>(x, y). [''rclone'', ''sync'', x, y]) pairs"
    "HOME_DIR s' = HOME_DIR s1" "HOME_ARGS s' = HOME_ARGS s1"
    "BACKUP_LOCATIONS s' = BACKUP_LOCATIONS s1"
    "logger s' = logger s1" "console_logging s' = console_logging s1"
    by blast
  show ?case
    unfolding p using s1 s'
    by (intro exI [of _ s'] exI [of _ "([''rclone'', ''sync'', x, y] @ ARGS s1) # cs"]) simp
qed




lemma console_output_frame:
  "HOME_DIR (console_output e b s) = HOME_DIR s"
  "BACKUP_LOCATIONS (console_output e b s) = BACKUP_LOCATIONS s"
  "ARGS (console_output e b s) = ARGS s"
  "HOME_ARGS (console_output e b s) = HOME_ARGS s"
  "console_logging (console_output e b s) = console_logging s"
  "launched (console_output e b s) = launched s"
  "level (logger (console_output e b s)) = level (logger s)"
  by (simp_all add: console_output_def log_frame addHandler_def removeHandler_def)



text \<open>Toggling the console handler.\<close>

lemma getEffectiveLevel_cong: "level a = level b \<Longrightarrow> getEffectiveLevel a = getEffectiveLevel b"
  by (simp add: getEffectiveLevel_def)

lemma getEffectiveLevel_handlers:
  "getEffectiveLevel (addHandler h lg) = getEffectiveLevel lg"
  "getEffectiveLevel (removeHandler h lg) = getEffectiveLevel lg"
  by (simp_all add: getEffectiveLevel_def addHandler_def removeHandler_def)

lemma console_output_hdlrs:
  assumes "hdlrs (logger s) = [RotatingFile f m b l0, Stream l] \<or> hdlrs (logger s) = [RotatingFile f m b l0]"
      and "console_logging s = Stream l"
  shows "hdlrs (logger (console_output e enabled s)) =
           (if enabled then [RotatingFile f m b l0, Stream l] else [RotatingFile f m b l0])"
  using assms by (auto simp: console_output_def log_frame addHandler_def removeHandler_def)

lemma console_output_records:
  assumes "levelno (getEffectiveLevel (logger s)) \<le> levelno INFO"
  shows "records (console_output e enabled s) = records s @
           [\<lparr>levelname = INFO,
             message = (if enabled then ''Console logging enabled'' else ''Console logging disabled'')\<rparr>]"
  using assms
  by (simp add: console_output_def logger_info_def logger_log_records getEffectiveLevel_handlers)

lemma foldl_console_output:
  assumes "hdlrs (logger s) = [RotatingFile f m b l0, Stream l] \<or> hdlrs (logger s) = [RotatingFile f m b l0]"
      and "console_logging s = Stream l"
      and "levelno (getEffectiveLevel (logger s)) \<le> levelno INFO"
  shows "(hdlrs (logger (foldl (\<lambda>t en. console_output e en t) s bs)) = [RotatingFile f m b l0, Stream l]
            \<or> hdlrs (logger (foldl (\<lambda>t en. console_output e en t) s bs)) = [RotatingFile f m b l0])
       \<and> console_logging (foldl (\<lambda>t en. console_output e en t) s bs) = Stream l
       \<and> level (logger (foldl (\<lambda>t en. console_output e en t) s bs)) = level (logger s)
       \<and> records (foldl (\<lambda>t en. console_output e en t) s bs) = records s @
           map (\<lambda>en. \<lparr>levelname = INFO,
             message = (if en then ''Console logging enabled'' else ''Console logging disabled'')\<rparr>) bs"
  using assms
proof (induction bs arbitrary: s)
  case Nil
  then show ?case by simp
next
  case (Cons en bs)
  let ?s1 = "console_output e en s"
  have h: "hdlrs (logger ?s1) = [RotatingFile f m b l0, Stream l] \<or> hdlrs (logger ?s1) = [RotatingFile f m b l0]"
    using console_output_hdlrs [OF Cons.prems(1,2), of e en] by (cases en) simp_all
  have c: "console_logging ?s1 = Stream l"
    using Cons.prems(2) by (simp add: console_output_frame)
  have lv: "level (logger ?s1) = level (logger s)"
    by (simp add: console_output_frame)
  with Cons.prems(3) have lv': "levelno (getEffectiveLevel (logger ?s1)) \<le> levelno INFO"
    by (simp add: getEffectiveLevel_cong [OF lv])
  from Cons.IH [OF h c lv'] lv console_output_records [OF Cons.prems(3), of e en]
  show ?case by simp
qed

lemma console_records_once:
  assumes "hdlrs (logger s) = [RotatingFile f m b l0, Stream l]"
      and "levelno (getEffectiveLevel (logger s)) \<le> levelno lvl" and "levelno l \<le> levelno lvl"
  shows "console_records (logger_log e lvl msg s) =
           console_records s @ [\<lparr>levelname = lvl, message = msg\<rparr>]"
  using assms
  by (simp add: logger_log_def callHandlers_def handle_def Let_def split: option.splits)

section \<open>The claims\<close>

subsection \<open>C7: standard output before standard error\<close>

text \<open>
  Claim C7. Within one invocation of \<^verbatim>\<open>rclone_sync\<close> the child's standard output is
  drained to its end, each line logged at debug level, before any line of standard error
  is read or logged: the records the call adds are the \<^verbatim>\<open>Running command\<close> record, then
  one debug record for every line read from standard output, then one debug record for
  every line read from standard error, then records that are not debug records; and
  standard error is read only when the loop over standard output ended without an
  exception. So every stdout debug record of the invocation precedes every stderr debug
  record of it. The lines of a stream that decodes are the lines of its text after the
  translation of newlines: together they are that text, none is empty, a line feed
  occurs in a line only as its last character, and every line but the last ends with
  one. The logger must accept debug records, which the configured
  \<^verbatim>\<open>LOG_LEVEL = logging.DEBUG\<close> gives.
\<close>

theorem rclone_sync_drains_stdout_first:
  assumes "popen e (length (launched s))
             ([''rclone'', ''sync'', source, destination] @ (case args of None \<Rightarrow> [] | Some a \<Rightarrow> a))
           = Exits out err rc"
      and "levelno (getEffectiveLevel (logger s)) \<le> levelno DEBUG"
  shows "\<exists>s' post. rclone_sync e source destination args s = Some s'
           \<and> records s' = records s
               @ [\<lparr>levelname = INFO, message = ''Running command: '' @ str_join '' ''
                    ([''rclone'', ''sync'', source, destination] @ (case args of None \<Rightarrow> [] | Some a \<Rightarrow> a))\<rparr>]
               @ map (\<lambda>stdout_line. \<lparr>levelname = DEBUG, message = strip stdout_line\<rparr>) (lines_read out)
               @ map (\<lambda>stderr_line. \<lparr>levelname = DEBUG, message = strip stderr_line\<rparr>)
                   (if read_error out = None then lines_read err else [])
               @ post
           \<and> DEBUG \<notin> levelname ` set post
           \<and> (\<forall>t. out = Text t \<longrightarrow>
                 read_error out = None
               \<and> concat (lines_read out) = universal_newlines t
               \<and> (\<forall>l \<in> set (lines_read out). l \<noteq> [] \<and> CHR 0x0A \<notin> set (butlast l))
               \<and> (\<forall>l \<in> set (butlast (lines_read out)). last l = CHR 0x0A))
           \<and> (\<forall>t. err = Text t \<longrightarrow>
                 concat (lines_read err) = universal_newlines t
               \<and> (\<forall>l \<in> set (lines_read err). l \<noteq> [] \<and> CHR 0x0A \<notin> set (butlast l))
               \<and> (\<forall>l \<in> set (butlast (lines_read err)). last l = CHR 0x0A))
           \<and> (\<forall>ls tx. out = Fails ls tx \<longrightarrow>
                 lines_read out = takeWhile (\<lambda>l. l \<noteq> []) ls
               \<and> (read_error out = None \<longleftrightarrow> [] \<in> set ls))"
proof -
  let ?cmd = "[''rclone'', ''sync'', source, destination] @ (case args of None \<Rightarrow> [] | Some a \<Rightarrow> a)"
  let ?run = "\<lparr>levelname = INFO, message = ''Running command: '' @ str_join '' '' ?cmd\<rparr>"
  let ?dbg = "\<lambda>l. \<lparr>levelname = DEBUG, message = strip l\<rparr>"
  let ?s0 = "(logger_info e (''Running command: '' @ str_join '' '' ?cmd) s)\<lparr>launched := launched s @ [?cmd]\<rparr>"
  let ?s1 = "foldl (\<lambda>t l. logger_debug e (strip l) t) ?s0 (lines_read out)"
  let ?s2 = "foldl (\<lambda>t l. logger_debug e (strip l) t) ?s1 (lines_read err)"
  have lv: "levelno (getEffectiveLevel (logger s)) \<le> levelno INFO"
    "levelno (getEffectiveLevel (logger s)) \<le> levelno ERROR"
    using assms(2) by simp_all
  have lg: "logger ?s0 = logger s" "logger ?s1 = logger s" "logger ?s2 = logger s"
    by (simp_all add: foldl_debug_frame log_frame)
  have r0: "records ?s0 = records s @ [?run]"
    using lv by (simp add: logger_info_def logger_log_records)
  have r1: "records ?s1 = records ?s0 @ map ?dbg (lines_read out)"
    using assms(2) lg(1) by (simp only: foldl_debug_records if_True)
  have r2: "records ?s2 = records ?s1 @ map ?dbg (lines_read err)"
    using assms(2) lg(2) by (simp only: foldl_debug_records if_True)
  have trace: "\<exists>s' post. rclone_sync e source destination args s = Some s'
           \<and> records s' = records s @ [?run] @ map ?dbg (lines_read out)
               @ map ?dbg (if read_error out = None then lines_read err else []) @ post
           \<and> DEBUG \<notin> levelname ` set post"
  proof (cases "read_error out")
    case (Some tx)
    let ?t1 = "logger_error e (''An error occurred: '' @ tx) ?s1"
    have run: "rclone_sync e source destination args s = Some ?t1"
      using assms(1) Some by (rule rclone_sync_stdout_fails)
    have t1: "records ?t1 = records ?s1 @ [\<lparr>levelname = ERROR, message = ''An error occurred: '' @ tx\<rparr>]"
      using lv lg(2) by (simp only: logger_error_def logger_log_records if_True)
    have "records ?t1 = records s @ [?run] @ map ?dbg (lines_read out)
        @ map ?dbg (if read_error out = None then lines_read err else [])
        @ [\<lparr>levelname = ERROR, message = ''An error occurred: '' @ tx\<rparr>]"
      unfolding t1 r1 r0 using Some by simp
    with run show ?thesis
      by (intro exI conjI) (assumption, assumption, simp)
  next
    case None
    note o = None
    show ?thesis
    proof (cases "read_error err")
      case (Some tx)
      let ?t1 = "logger_error e (''An error occurred: '' @ tx) ?s2"
      have run: "rclone_sync e source destination args s = Some ?t1"
        using assms(1) o Some by (rule rclone_sync_stderr_fails)
      have t1: "records ?t1 = records ?s2 @ [\<lparr>levelname = ERROR, message = ''An error occurred: '' @ tx\<rparr>]"
        using lv lg(3) by (simp only: logger_error_def logger_log_records if_True)
      have "records ?t1 = records s @ [?run] @ map ?dbg (lines_read out)
          @ map ?dbg (if read_error out = None then lines_read err else [])
          @ [\<lparr>levelname = ERROR, message = ''An error occurred: '' @ tx\<rparr>]"
        unfolding t1 r2 r1 r0 using o by simp
      with run show ?thesis
        by (intro exI conjI) (assumption, assumption, simp)
    next
      case None
      note er = None
      show ?thesis
      proof (cases "rc = 0")
        case True
        let ?s3 = "logger_info e (''Sync completed for '' @ source @ '' to '' @ destination) ?s2"
        have run: "rclone_sync e source destination args s = Some ?s3"
          using assms(1) [unfolded True] o er by (rule rclone_sync_Exits_zero)
        have r3: "records ?s3 = records ?s2 @
            [\<lparr>levelname = INFO, message = ''Sync completed for '' @ source @ '' to '' @ destination\<rparr>]"
          using lv lg(3) by (simp only: logger_info_def logger_log_records if_True)
        have "records ?s3 = records s @ [?run] @ map ?dbg (lines_read out)
            @ map ?dbg (if read_error out = None then lines_read err else [])
            @ [\<lparr>levelname = INFO, message = ''Sync completed for '' @ source @ '' to '' @ destination\<rparr>]"
          unfolding r3 r2 r1 r0 using o by simp
        with run show ?thesis
          by (intro exI conjI) (assumption, assumption, simp)
      next
        case False
        let ?m1 = "''Error syncing '' @ source @ '' to '' @ destination @ '': '' @ str_exn e (CalledProcessError rc ?cmd)"
        let ?t1 = "logger_error e ?m1 ?s2"
        let ?t2 = "logger_error e ''stdout: None'' ?t1"
        let ?t3 = "logger_error e ''stderr: None'' ?t2"
        have run: "rclone_sync e source destination args s = Some ?t3"
          using assms(1) o er False by (rule rclone_sync_Exits_nonzero)
        have lgt: "logger ?t1 = logger s" "logger ?t2 = logger s"
          using lg(3) by (simp_all only: log_frame)
        have t1: "records ?t1 = records ?s2 @ [\<lparr>levelname = ERROR, message = ?m1\<rparr>]"
          using lv lg(3) by (simp only: logger_error_def logger_log_records if_True)
        have t2: "records ?t2 = records ?t1 @ [\<lparr>levelname = ERROR, message = ''stdout: None''\<rparr>]"
          using lv lgt(1) by (simp only: logger_error_def logger_log_records if_True)
        have t3: "records ?t3 = records ?t2 @ [\<lparr>levelname = ERROR, message = ''stderr: None''\<rparr>]"
          using lv lgt(2) by (simp only: logger_error_def logger_log_records if_True)
        have "records ?t3 = records s @ [?run] @ map ?dbg (lines_read out)
            @ map ?dbg (if read_error out = None then lines_read err else [])
            @ [\<lparr>levelname = ERROR, message = ?m1\<rparr>, \<lparr>levelname = ERROR, message = ''stdout: None''\<rparr>,
               \<lparr>levelname = ERROR, message = ''stderr: None''\<rparr>]"
          unfolding t3 t2 t1 r2 r1 r0 using o by simp
        with run show ?thesis
          by (intro exI conjI) (assumption, assumption, simp)
      qed
    qed
  qed
  have c1: "\<forall>t. out = Text t \<longrightarrow>
                 read_error out = None
               \<and> concat (lines_read out) = universal_newlines t
               \<and> (\<forall>l \<in> set (lines_read out). l \<noteq> [] \<and> CHR 0x0A \<notin> set (butlast l))
               \<and> (\<forall>l \<in> set (butlast (lines_read out)). last l = CHR 0x0A)"
  proof (intro allI impI)
    fix t
    assume "out = Text t"
    then show "read_error out = None
               \<and> concat (lines_read out) = universal_newlines t
               \<and> (\<forall>l \<in> set (lines_read out). l \<noteq> [] \<and> CHR 0x0A \<notin> set (butlast l))
               \<and> (\<forall>l \<in> set (butlast (lines_read out)). last l = CHR 0x0A)"
      using lines_read_Text [of t] by (simp only: simp_thms)
  qed
  have c2: "\<forall>t. err = Text t \<longrightarrow>
                 concat (lines_read err) = universal_newlines t
               \<and> (\<forall>l \<in> set (lines_read err). l \<noteq> [] \<and> CHR 0x0A \<notin> set (butlast l))
               \<and> (\<forall>l \<in> set (butlast (lines_read err)). last l = CHR 0x0A)"
  proof (intro allI impI)
    fix t
    assume "err = Text t"
    then show "concat (lines_read err) = universal_newlines t
               \<and> (\<forall>l \<in> set (lines_read err). l \<noteq> [] \<and> CHR 0x0A \<notin> set (butlast l))
               \<and> (\<forall>l \<in> set (butlast (lines_read err)). last l = CHR 0x0A)"
      using lines_read_Text [of t] by (simp only: simp_thms)
  qed
  have c3: "\<forall>ls tx. out = Fails ls tx \<longrightarrow>
                 lines_read out = takeWhile (\<lambda>l. l \<noteq> []) ls
               \<and> (read_error out = None \<longleftrightarrow> [] \<in> set ls)"
    by simp
  from trace obtain s' post where
    t1: "rclone_sync e source destination args s = Some s'" and
    t2: "records s' = records s @ [?run] @ map ?dbg (lines_read out)
               @ map ?dbg (if read_error out = None then lines_read err else []) @ post" and
    t3: "DEBUG \<notin> levelname ` set post"
    by blast
  show ?thesis
    by (rule exI [of _ s'], rule exI [of _ post]) (intro conjI t1 t2 t3 c1 c2 c3)
qed

theorem rclone_sync_drains_stdout_first_witness:
  "popen env_demo (length (launched demo_state))
     ([''rclone'', ''sync'', ''/data/'', ''gdrive:/data/''] @ (case Some [''--verbose''] of None \<Rightarrow> [] | Some a \<Rightarrow> a))
     = Exits (Text (''Transferred: 1'' @ [CHR 0x0D, CHR 0x0A] @ ''Checks: 2\<newline>'')) (Text ''NOTICE: done\<newline>'') 0
   \<and> levelno (getEffectiveLevel (logger demo_state)) \<le> levelno DEBUG
   \<and> (\<exists>s'. rclone_sync env_demo ''/data/'' ''gdrive:/data/'' (Some [''--verbose'']) demo_state = Some s'
        \<and> take 4 (records s') =
            [\<lparr>levelname = INFO, message = ''Running command: rclone sync /data/ gdrive:/data/ --verbose''\<rparr>,
             \<lparr>levelname = DEBUG, message = ''Transferred: 1''\<rparr>,
             \<lparr>levelname = DEBUG, message = ''Checks: 2''\<rparr>,
             \<lparr>levelname = DEBUG, message = ''NOTICE: done''\<rparr>]
        \<and> DEBUG \<notin> levelname ` set (drop 4 (records s')))"
proof -
  let ?dbg = "\<lambda>l. \<lparr>levelname = DEBUG, message = strip l\<rparr>"
  have h1: "popen env_demo (length (launched demo_state))
     ([''rclone'', ''sync'', ''/data/'', ''gdrive:/data/''] @ (case Some [''--verbose''] of None \<Rightarrow> [] | Some a \<Rightarrow> a))
     = Exits (Text (''Transferred: 1'' @ [CHR 0x0D, CHR 0x0A] @ ''Checks: 2\<newline>'')) (Text ''NOTICE: done\<newline>'') 0"
    by (simp add: env_demo_def demo_state_def module_globals_def)
  have h2: "levelno (getEffectiveLevel (logger demo_state)) \<le> levelno DEBUG"
    by (simp add: demo_state_def module_globals_def getEffectiveLevel_def)
  have lo: "lines_read (Text (''Transferred: 1'' @ [CHR 0x0D, CHR 0x0A] @ ''Checks: 2\<newline>'')) = [''Transferred: 1\<newline>'', ''Checks: 2\<newline>'']"
    by code_simp
  have le: "lines_read (Text ''NOTICE: done\<newline>'') = [''NOTICE: done\<newline>'']"
    by code_simp
  have st: "strip ''Transferred: 1\<newline>'' = ''Transferred: 1''"
    "strip ''Checks: 2\<newline>'' = ''Checks: 2''"
    "strip ''NOTICE: done\<newline>'' = ''NOTICE: done''"
    by code_simp+
  have ro: "read_error (Text (''Transferred: 1'' @ [CHR 0x0D, CHR 0x0A] @ ''Checks: 2\<newline>'')) = None"
    by simp
  have mo: "map ?dbg (lines_read (Text (''Transferred: 1'' @ [CHR 0x0D, CHR 0x0A] @ ''Checks: 2\<newline>''))) =
      [\<lparr>levelname = DEBUG, message = ''Transferred: 1''\<rparr>, \<lparr>levelname = DEBUG, message = ''Checks: 2''\<rparr>]"
    unfolding lo by (simp only: list.map st)
  have me: "map ?dbg (lines_read (Text ''NOTICE: done\<newline>'')) = [\<lparr>levelname = DEBUG, message = ''NOTICE: done''\<rparr>]"
    unfolding le by (simp only: list.map st)
  have cmd: "''Running command: '' @ str_join '' ''
       ([''rclone'', ''sync'', ''/data/'', ''gdrive:/data/''] @ (case Some [''--verbose''] of None \<Rightarrow> [] | Some a \<Rightarrow> a))
     = ''Running command: rclone sync /data/ gdrive:/data/ --verbose''"
    by simp
  have rs: "records demo_state = []"
    by (simp add: demo_state_def module_globals_def)
  have "\<exists>s' post. rclone_sync env_demo ''/data/'' ''gdrive:/data/'' (Some [''--verbose'']) demo_state = Some s'
      \<and> records s' = records demo_state
               @ [\<lparr>levelname = INFO, message = ''Running command: '' @ str_join '' ''
                    ([''rclone'', ''sync'', ''/data/'', ''gdrive:/data/''] @ (case Some [''--verbose''] of None \<Rightarrow> [] | Some a \<Rightarrow> a))\<rparr>]
               @ map ?dbg (lines_read (Text (''Transferred: 1'' @ [CHR 0x0D, CHR 0x0A] @ ''Checks: 2\<newline>'')))
               @ map ?dbg (if read_error (Text (''Transferred: 1'' @ [CHR 0x0D, CHR 0x0A] @ ''Checks: 2\<newline>'')) = None then lines_read (Text ''NOTICE: done\<newline>'') else [])
               @ post
      \<and> DEBUG \<notin> levelname ` set post"
    using rclone_sync_drains_stdout_first [OF h1 h2]
    by (elim exE conjE) (intro exI conjI; assumption)
  then obtain s' post where run: "rclone_sync env_demo ''/data/'' ''gdrive:/data/'' (Some [''--verbose'']) demo_state = Some s'"
    and recs: "records s' = records demo_state
               @ [\<lparr>levelname = INFO, message = ''Running command: '' @ str_join '' ''
                    ([''rclone'', ''sync'', ''/data/'', ''gdrive:/data/''] @ (case Some [''--verbose''] of None \<Rightarrow> [] | Some a \<Rightarrow> a))\<rparr>]
               @ map ?dbg (lines_read (Text (''Transferred: 1'' @ [CHR 0x0D, CHR 0x0A] @ ''Checks: 2\<newline>'')))
               @ map ?dbg (if read_error (Text (''Transferred: 1'' @ [CHR 0x0D, CHR 0x0A] @ ''Checks: 2\<newline>'')) = None then lines_read (Text ''NOTICE: done\<newline>'') else [])
               @ post"
    and nd: "DEBUG \<notin> levelname ` set post"
    by blast
  have r: "records s' =
      [\<lparr>levelname = INFO, message = ''Running command: rclone sync /data/ gdrive:/data/ --verbose''\<rparr>,
             \<lparr>levelname = DEBUG, message = ''Transferred: 1''\<rparr>,
             \<lparr>levelname = DEBUG, message = ''Checks: 2''\<rparr>,
             \<lparr>levelname = DEBUG, message = ''NOTICE: done''\<rparr>] @ post"
    unfolding recs ro
    apply (simp only: simp_thms if_True)
    unfolding mo me cmd rs
    apply (simp only: append_Nil append_Cons)
    done
  have "take 4 (records s') =
            [\<lparr>levelname = INFO, message = ''Running command: rclone sync /data/ gdrive:/data/ --verbose''\<rparr>,
             \<lparr>levelname = DEBUG, message = ''Transferred: 1''\<rparr>,
             \<lparr>levelname = DEBUG, message = ''Checks: 2''\<rparr>,
             \<lparr>levelname = DEBUG, message = ''NOTICE: done''\<rparr>]"
    "drop 4 (records s') = post"
    unfolding r by simp_all
  with run nd h1 h2 show ?thesis
    by auto
qed


subsection \<open>C4: a child that exits with 0\<close>





subsection \<open>C5: a child that exits with a non-zero code\<close>





subsection \<open>C6: a launch that raises\<close>

text \<open>
  Claim C6. For every invocation of \<^verbatim>\<open>rclone_sync\<close>, if launching the child process
  raises an exception, the exception is caught inside \<^verbatim>\<open>rclone_sync\<close>: the call
  returns normally, the records it adds end with the error record
  \<^verbatim>\<open>An error occurred: <text of the exception>\<close>, nothing else but the
  \<^verbatim>\<open>Running command\<close> record is added, and when the invocation is the one that the
  loop of \<^verbatim>\<open>main\<close> makes for the pair, the loop goes on with the remaining pairs.
  The logger must accept error records.
\<close>

theorem rclone_sync_catches_launch_error:
  assumes "popen e (length (launched s))
             ([''rclone'', ''sync'', source, destination] @ (case args of None \<Rightarrow> [] | Some a \<Rightarrow> a))
           = LaunchFails text"
      and "levelno (getEffectiveLevel (logger s)) \<le> levelno ERROR"
  shows "\<exists>s' pre. rclone_sync e source destination args s = Some s'
           \<and> records s' = records s @ pre @
               [\<lparr>levelname = ERROR, message = ''An error occurred: '' @ text\<rparr>]
           \<and> sublist text (''An error occurred: '' @ text)
           \<and> set pre \<subseteq> {\<lparr>levelname = INFO, message = ''Running command: '' @ str_join '' ''
                 ([''rclone'', ''sync'', source, destination] @ (case args of None \<Rightarrow> [] | Some a \<Rightarrow> a))\<rparr>}
           \<and> (\<forall>t rest.
                 s = logger_info e (''Syncing '' @ source @ '' to '' @ destination)
                       (if source = HOME_DIR t then t\<lparr>ARGS := ARGS t @ HOME_ARGS t\<rparr> else t)
                 \<and> args = Some (ARGS s)
                 \<longrightarrow> main_loop e ((source, destination) # rest) t = main_loop e rest s')"
proof -
  let ?cmd = "[''rclone'', ''sync'', source, destination] @ (case args of None \<Rightarrow> [] | Some a \<Rightarrow> a)"
  let ?run = "\<lparr>levelname = INFO, message = ''Running command: '' @ str_join '' '' ?cmd\<rparr>"
  let ?s0 = "(logger_info e (''Running command: '' @ str_join '' '' ?cmd) s)\<lparr>launched := launched s @ [?cmd]\<rparr>"
  let ?t1 = "logger_error e (''An error occurred: '' @ text) ?s0"
  have run: "rclone_sync e source destination args s = Some ?t1"
    using assms(1) by (rule rclone_sync_LaunchFails)
  have lg: "logger ?s0 = logger s"
    by (simp add: log_frame)
  have "records ?s0 = records (logger_info e (''Running command: '' @ str_join '' '' ?cmd) s)"
    by simp
  then obtain p0 where r0: "records ?s0 = records s @ p0" and p0: "set p0 \<subseteq> {?run}"
    using logger_info_records_ex [of e "''Running command: '' @ str_join '' '' ?cmd" s] by metis
  have t1: "records ?t1 = records ?s0 @ [\<lparr>levelname = ERROR, message = ''An error occurred: '' @ text\<rparr>]"
    using assms(2) lg by (simp only: logger_error_def logger_log_records if_True)
  have recs: "records ?t1 = records s @ p0 @ [\<lparr>levelname = ERROR, message = ''An error occurred: '' @ text\<rparr>]"
    unfolding t1 r0 by simp
  have cite: "sublist text (''An error occurred: '' @ text)"
    by (rule sublist_append_leftI)
  have loop: "\<forall>t rest.
                 s = logger_info e (''Syncing '' @ source @ '' to '' @ destination)
                       (if source = HOME_DIR t then t\<lparr>ARGS := ARGS t @ HOME_ARGS t\<rparr> else t)
                 \<and> args = Some (ARGS s)
                 \<longrightarrow> main_loop e ((source, destination) # rest) t = main_loop e rest ?t1"
  proof (intro allI impI)
    fix t rest
    assume a: "s = logger_info e (''Syncing '' @ source @ '' to '' @ destination)
                       (if source = HOME_DIR t then t\<lparr>ARGS := ARGS t @ HOME_ARGS t\<rparr> else t)
                 \<and> args = Some (ARGS s)"
    then have "rclone_sync e source destination (Some (ARGS s)) s = Some ?t1"
      using run by simp
    with a show "main_loop e ((source, destination) # rest) t = main_loop e rest ?t1"
      by (simp add: Let_def)
  qed
  from run recs cite p0 loop show ?thesis
    by blast
qed

theorem rclone_sync_catches_launch_error_witness:
  "(let t = demo_state2;
        s = logger_info env_demo (''Syncing '' @ ''/data/'' @ '' to '' @ ''gdrive:/data/'')
              (if ''/data/'' = HOME_DIR t then t\<lparr>ARGS := ARGS t @ HOME_ARGS t\<rparr> else t)
    in popen env_demo (length (launched s))
         ([''rclone'', ''sync'', ''/data/'', ''gdrive:/data/''] @ (case Some (ARGS s) of None \<Rightarrow> [] | Some a \<Rightarrow> a))
         = LaunchFails ''[Errno 2] No such file or directory: rclone''
       \<and> levelno (getEffectiveLevel (logger s)) \<le> levelno ERROR
       \<and> (\<exists>s'. rclone_sync env_demo ''/data/'' ''gdrive:/data/'' (Some (ARGS s)) s = Some s'
             \<and> last (records s') =
                 \<lparr>levelname = ERROR,
                  message = ''An error occurred: [Errno 2] No such file or directory: rclone''\<rparr>
             \<and> main_loop env_demo [(''/data/'', ''gdrive:/data/'')] t = Some s'))"
proof -
  define t where "t = demo_state2"
  define s where "s = logger_info env_demo (''Syncing '' @ ''/data/'' @ '' to '' @ ''gdrive:/data/'')
              (if ''/data/'' = HOME_DIR t then t\<lparr>ARGS := ARGS t @ HOME_ARGS t\<rparr> else t)"
  have h1: "popen env_demo (length (launched s))
         ([''rclone'', ''sync'', ''/data/'', ''gdrive:/data/''] @ (case Some (ARGS s) of None \<Rightarrow> [] | Some a \<Rightarrow> a))
         = LaunchFails ''[Errno 2] No such file or directory: rclone''"
    by (simp add: s_def t_def env_demo_def demo_state2_def demo_state_def module_globals_def log_frame)
  have h2: "levelno (getEffectiveLevel (logger s)) \<le> levelno ERROR"
    by (simp add: s_def t_def demo_state2_def demo_state_def module_globals_def log_frame getEffectiveLevel_def)
  from rclone_sync_catches_launch_error [OF h1 h2]
  obtain s' pre where run: "rclone_sync env_demo ''/data/'' ''gdrive:/data/'' (Some (ARGS s)) s = Some s'"
    and recs: "records s' = records s @ pre @
               [\<lparr>levelname = ERROR,
                 message = ''An error occurred: '' @ ''[Errno 2] No such file or directory: rclone''\<rparr>]"
    and loop: "\<forall>t rest.
                 s = logger_info env_demo (''Syncing '' @ ''/data/'' @ '' to '' @ ''gdrive:/data/'')
                       (if ''/data/'' = HOME_DIR t then t\<lparr>ARGS := ARGS t @ HOME_ARGS t\<rparr> else t)
                 \<and> Some (ARGS s) = Some (ARGS s)
                 \<longrightarrow> main_loop env_demo ((''/data/'', ''gdrive:/data/'') # rest) t = main_loop env_demo rest s'"
    by blast
  from loop have "main_loop env_demo [(''/data/'', ''gdrive:/data/'')] t = main_loop env_demo [] s'"
    using s_def by blast
  then have ml: "main_loop env_demo [(''/data/'', ''gdrive:/data/'')] t = Some s'"
    by simp
  have "last (records s') =
      \<lparr>levelname = ERROR, message = ''An error occurred: [Errno 2] No such file or directory: rclone''\<rparr>"
    unfolding recs by simp
  with run ml h1 h2 show ?thesis
    unfolding Let_def t_def [symmetric] s_def [symmetric] by blast
qed

subsection \<open>C1: the home arguments stay in the shared list\<close>

text \<open>
  Claim C1. In the loop of \<^verbatim>\<open>main\<close>, when the source of the current pair equals
  \<^verbatim>\<open>HOME_DIR\<close>, \<^verbatim>\<open>HOME_ARGS\<close> is appended to the shared list \<^verbatim>\<open>ARGS\<close> in place, so
  every pair processed after the home pair in the same run is launched with the extended
  list: with the pairs \<open>pre @ (HOME_DIR, d) # post\<close> (the keys of a dictionary are
  distinct, so the home directory occurs once), the pairs of \<open>pre\<close> get \<^verbatim>\<open>ARGS\<close> and
  the home pair and the pairs of \<open>post\<close> get \<^verbatim>\<open>ARGS + HOME_ARGS\<close>. Stated for runs in
  which no child blocks for ever.
\<close>

theorem home_args_reach_later_pairs:
  assumes "\<forall>n c. popen e n c \<noteq> Hangs"
      and "BACKUP_LOCATIONS s = pre @ (HOME_DIR s, d) # post"
      and "HOME_DIR s \<notin> fst ` set pre" and "HOME_DIR s \<notin> fst ` set post"
  shows "\<exists>s'. main e elapsed s = Some s'
           \<and> launched s' = launched s
               @ map (\<lambda>(x, y). [''rclone'', ''sync'', x, y] @ ARGS s) pre
               @ [[''rclone'', ''sync'', HOME_DIR s, d] @ ARGS s @ HOME_ARGS s]
               @ map (\<lambda>(x, y). [''rclone'', ''sync'', x, y] @ ARGS s @ HOME_ARGS s) post
           \<and> ARGS s' = ARGS s @ HOME_ARGS s"
proof -
  from main_loop_with_home [OF assms(1,3,4), of d]
  obtain s1 where s1: "main_loop e (pre @ (HOME_DIR s, d) # post) s = Some s1"
    "launched s1 = launched s
               @ map (\<lambda>(x, y). [''rclone'', ''sync'', x, y] @ ARGS s) pre
               @ [[''rclone'', ''sync'', HOME_DIR s, d] @ ARGS s @ HOME_ARGS s]
               @ map (\<lambda>(x, y). [''rclone'', ''sync'', x, y] @ ARGS s @ HOME_ARGS s) post"
    "ARGS s1 = ARGS s @ HOME_ARGS s"
    by blast
  have "main e elapsed s = Some (logger_info e (''Backup process completed in '' @ elapsed @ '' minutes'') s1)"
    using s1(1) assms(2) by (simp add: main_def)
  with s1(2,3) show ?thesis
    by (simp add: log_frame)
qed

theorem home_args_reach_later_pairs_witness:
  "(\<forall>n c. popen env_demo n c \<noteq> Hangs)
   \<and> BACKUP_LOCATIONS demo_state_AHB =
       [(''/srv/a/'', ''remote:/a/'')] @ (HOME_DIR demo_state_AHB, ''remote:/home/'') # [(''/srv/b/'', ''remote:/b/'')]
   \<and> HOME_DIR demo_state_AHB \<notin> fst ` set [(''/srv/a/'', ''remote:/a/'')]
   \<and> HOME_DIR demo_state_AHB \<notin> fst ` set [(''/srv/b/'', ''remote:/b/'')]
   \<and> (\<exists>s'. main env_demo ''0.25'' demo_state_AHB = Some s'
        \<and> last (launched s') =
            [''rclone'', ''sync'', ''/srv/b/'', ''remote:/b/''] @ ARGS demo_state_AHB @ HOME_ARGS demo_state_AHB
        \<and> ARGS s' = ARGS demo_state_AHB @ HOME_ARGS demo_state_AHB)"
proof -
  have h1: "\<forall>n c. popen env_demo n c \<noteq> Hangs"
    by (simp add: env_demo_def)
  have h2: "BACKUP_LOCATIONS demo_state_AHB =
       [(''/srv/a/'', ''remote:/a/'')] @ (HOME_DIR demo_state_AHB, ''remote:/home/'') # [(''/srv/b/'', ''remote:/b/'')]"
    by (simp add: demo_state_AHB_def demo_state_def module_globals_def)
  have h3: "HOME_DIR demo_state_AHB \<notin> fst ` set [(''/srv/a/'', ''remote:/a/'')]"
    by (simp add: demo_state_AHB_def demo_state_def module_globals_def)
  have h4: "HOME_DIR demo_state_AHB \<notin> fst ` set [(''/srv/b/'', ''remote:/b/'')]"
    by (simp add: demo_state_AHB_def demo_state_def module_globals_def)
  from home_args_reach_later_pairs [OF h1 h2 h3 h4, of "''0.25''"]
  obtain s' where "main env_demo ''0.25'' demo_state_AHB = Some s'"
    "launched s' = launched demo_state_AHB
               @ map (\<lambda>(x, y). [''rclone'', ''sync'', x, y] @ ARGS demo_state_AHB) [(''/srv/a/'', ''remote:/a/'')]
               @ [[''rclone'', ''sync'', HOME_DIR demo_state_AHB, ''remote:/home/''] @ ARGS demo_state_AHB @ HOME_ARGS demo_state_AHB]
               @ map (\<lambda>(x, y). [''rclone'', ''sync'', x, y] @ ARGS demo_state_AHB @ HOME_ARGS demo_state_AHB) [(''/srv/b/'', ''remote:/b/'')]"
    "ARGS s' = ARGS demo_state_AHB @ HOME_ARGS demo_state_AHB"
    by blast
  then have "main env_demo ''0.25'' demo_state_AHB = Some s'
        \<and> last (launched s') =
            [''rclone'', ''sync'', ''/srv/b/'', ''remote:/b/''] @ ARGS demo_state_AHB @ HOME_ARGS demo_state_AHB
        \<and> ARGS s' = ARGS demo_state_AHB @ HOME_ARGS demo_state_AHB"
    by simp
  with h1 h2 h3 h4 show ?thesis
    by blast
qed

subsection \<open>C3: one invocation for every pair, in order, whatever fails\<close>

text \<open>
  Claim C3. For every configured sequence of pairs, \<^verbatim>\<open>main\<close> launches
  \<^verbatim>\<open>rclone sync <source> <destination> ...\<close> exactly once for every pair, in the order
  of the configuration, whichever of the children exit with a non-zero code or cannot be
  launched: the commands added to the launch trace, cut to their first four words, are
  the pairs in order. The outcome of every launch is arbitrary except that no child
  blocks for ever.
\<close>

theorem main_invokes_once_per_pair:
  assumes "\<forall>n c. popen e n c \<noteq> Hangs"
  shows "\<exists>s' cs. main e elapsed s = Some s'
           \<and> launched s' = launched s @ cs
           \<and> map (take 4) cs = map (\<lambda>(x, y). [''rclone'', ''sync'', x, y]) (BACKUP_LOCATIONS s)"
proof -
  from main_loop_once_each [OF assms, of "BACKUP_LOCATIONS s" s]
  obtain s1 cs where s1: "main_loop e (BACKUP_LOCATIONS s) s = Some s1"
    "launched s1 = launched s @ cs"
    "map (take 4) cs = map (\<lambda>(x, y). [''rclone'', ''sync'', x, y]) (BACKUP_LOCATIONS s)"
    by blast
  have "main e elapsed s = Some (logger_info e (''Backup process completed in '' @ elapsed @ '' minutes'') s1)"
    using s1(1) by (simp add: main_def)
  with s1(2,3) show ?thesis
    by (simp add: log_frame)
qed

theorem main_invokes_once_per_pair_witness:
  "(\<forall>n c. popen env_demo n c \<noteq> Hangs)
   \<and> popen env_demo 1 [] = Exits (Text ''partial\<newline>'') (Text ''ERROR: quota\<newline>'') 1
   \<and> popen env_demo 2 [] = LaunchFails ''[Errno 2] No such file or directory: rclone''
   \<and> (\<exists>s' cs. main env_demo ''0.25'' demo_state = Some s'
        \<and> launched s' = launched demo_state @ cs
        \<and> map (take 4) cs =
            [[''rclone'', ''sync'', ''/home/siskourso/Downloads/'', ''gdrive:/Backups/-Orion-/Downloads/''],
             [''rclone'', ''sync'', ''/home/siskourso/Working/'', ''gdrive:/Backups/-Orion-/Working/''],
             [''rclone'', ''sync'', ''/home/siskourso/'', ''gdrive:/Backups/-Orion-/Home/'']])"
proof -
  have h1: "\<forall>n c. popen env_demo n c \<noteq> Hangs"
    by (simp add: env_demo_def)
  have h2: "popen env_demo 1 [] = Exits (Text ''partial\<newline>'') (Text ''ERROR: quota\<newline>'') 1"
    "popen env_demo 2 [] = LaunchFails ''[Errno 2] No such file or directory: rclone''"
    by (simp_all add: env_demo_def)
  have bl: "map (\<lambda>(x, y). [''rclone'', ''sync'', x, y]) (BACKUP_LOCATIONS demo_state) =
            [[''rclone'', ''sync'', ''/home/siskourso/Downloads/'', ''gdrive:/Backups/-Orion-/Downloads/''],
             [''rclone'', ''sync'', ''/home/siskourso/Working/'', ''gdrive:/Backups/-Orion-/Working/''],
             [''rclone'', ''sync'', ''/home/siskourso/'', ''gdrive:/Backups/-Orion-/Home/'']]"
    by (simp add: demo_state_def module_globals_def getEffectiveLevel_def)
  from main_invokes_once_per_pair [OF h1, of "''0.25''" demo_state] h1 h2 show ?thesis
    unfolding bl by blast
qed

subsection \<open>C8: the driver completes and the exit code is 0\<close>





subsection \<open>C10: a second call of \<^verbatim>\<open>main\<close>\<close>

text \<open>
  Claim C10. One call of \<^verbatim>\<open>main\<close> changes the module-global list \<^verbatim>\<open>ARGS\<close> for good:
  after a run that processes the home pair, \<^verbatim>\<open>ARGS\<close> is the original list with
  \<^verbatim>\<open>HOME_ARGS\<close> appended; nothing puts the original list back, so a second call launches
  every pair, from its first iteration on, with the home exclusion flags, and appends
  \<^verbatim>\<open>HOME_ARGS\<close> a second time at the home pair. Stated for runs in which no child
  blocks for ever, the home directory being one key of the dictionary.
\<close>

theorem main_twice_accumulates_home_args:
  assumes "\<forall>n c. popen e n c \<noteq> Hangs"
      and "BACKUP_LOCATIONS s = pre @ (HOME_DIR s, d) # post"
      and "HOME_DIR s \<notin> fst ` set pre" and "HOME_DIR s \<notin> fst ` set post"
  shows "\<exists>s1 s2. main e elapsed1 s = Some s1
           \<and> ARGS s1 = ARGS s @ HOME_ARGS s
           \<and> main e elapsed2 s1 = Some s2
           \<and> launched s2 = launched s1
               @ map (\<lambda>(x, y). [''rclone'', ''sync'', x, y] @ ARGS s @ HOME_ARGS s) pre
               @ [[''rclone'', ''sync'', HOME_DIR s, d] @ ARGS s @ HOME_ARGS s @ HOME_ARGS s]
               @ map (\<lambda>(x, y). [''rclone'', ''sync'', x, y] @ ARGS s @ HOME_ARGS s @ HOME_ARGS s) post
           \<and> ARGS s2 = ARGS s @ HOME_ARGS s @ HOME_ARGS s"
proof -
  let ?done1 = "''Backup process completed in '' @ elapsed1 @ '' minutes''"
  let ?done2 = "''Backup process completed in '' @ elapsed2 @ '' minutes''"
  from main_loop_with_home [OF assms(1,3,4), of d]
  obtain t1 where t1: "main_loop e (pre @ (HOME_DIR s, d) # post) s = Some t1"
    "ARGS t1 = ARGS s @ HOME_ARGS s" "HOME_DIR t1 = HOME_DIR s" "HOME_ARGS t1 = HOME_ARGS s"
    "BACKUP_LOCATIONS t1 = BACKUP_LOCATIONS s"
    by blast
  define s1 where "s1 = logger_info e ?done1 t1"
  have run1: "main e elapsed1 s = Some s1"
    using t1(1) assms(2) by (simp add: main_def s1_def)
  have fr1: "ARGS s1 = ARGS s @ HOME_ARGS s" "HOME_DIR s1 = HOME_DIR s"
    "HOME_ARGS s1 = HOME_ARGS s" "BACKUP_LOCATIONS s1 = BACKUP_LOCATIONS s"
    using t1 by (simp_all add: s1_def log_frame)
  have pre1: "HOME_DIR s1 \<notin> fst ` set pre" and post1: "HOME_DIR s1 \<notin> fst ` set post"
    using assms(3,4) fr1(2) by simp_all
  from main_loop_with_home [OF assms(1) pre1 post1, of d]
  obtain t2 where t2: "main_loop e (pre @ (HOME_DIR s1, d) # post) s1 = Some t2"
    "launched t2 = launched s1
               @ map (\<lambda>(x, y). [''rclone'', ''sync'', x, y] @ ARGS s1) pre
               @ [[''rclone'', ''sync'', HOME_DIR s1, d] @ ARGS s1 @ HOME_ARGS s1]
               @ map (\<lambda>(x, y). [''rclone'', ''sync'', x, y] @ ARGS s1 @ HOME_ARGS s1) post"
    "ARGS t2 = ARGS s1 @ HOME_ARGS s1"
    by blast
  define s2 where "s2 = logger_info e ?done2 t2"
  have run2: "main e elapsed2 s1 = Some s2"
    using t2(1) assms(2) fr1 by (simp add: main_def s2_def)
  have l2: "launched s2 = launched s1
               @ map (\<lambda>(x, y). [''rclone'', ''sync'', x, y] @ ARGS s @ HOME_ARGS s) pre
               @ [[''rclone'', ''sync'', HOME_DIR s, d] @ ARGS s @ HOME_ARGS s @ HOME_ARGS s]
               @ map (\<lambda>(x, y). [''rclone'', ''sync'', x, y] @ ARGS s @ HOME_ARGS s @ HOME_ARGS s) post"
    using t2(2) fr1 by (simp add: s2_def log_frame)
  have a2: "ARGS s2 = ARGS s @ HOME_ARGS s @ HOME_ARGS s"
    using t2(3) fr1 by (simp add: s2_def log_frame)
  from run1 fr1(1) run2 l2 a2 show ?thesis
    by blast
qed

theorem main_twice_accumulates_home_args_witness:
  "(\<forall>n c. popen env_demo n c \<noteq> Hangs)
   \<and> BACKUP_LOCATIONS demo_state =
       [(''/home/siskourso/Downloads/'', ''gdrive:/Backups/-Orion-/Downloads/''),
        (''/home/siskourso/Working/'', ''gdrive:/Backups/-Orion-/Working/'')]
       @ (HOME_DIR demo_state, ''gdrive:/Backups/-Orion-/Home/'') # []
   \<and> HOME_DIR demo_state \<notin> fst ` set
       [(''/home/siskourso/Downloads/'', ''gdrive:/Backups/-Orion-/Downloads/''),
        (''/home/siskourso/Working/'', ''gdrive:/Backups/-Orion-/Working/'')]
   \<and> HOME_DIR demo_state \<notin> fst ` set []
   \<and> (\<exists>s1 s2. main env_demo ''0.25'' demo_state = Some s1
         \<and> ARGS s1 = ARGS demo_state @ HOME_ARGS demo_state
         \<and> main env_demo ''0.30'' s1 = Some s2
         \<and> launched s2 ! length (launched s1) =
             [''rclone'', ''sync'', ''/home/siskourso/Downloads/'', ''gdrive:/Backups/-Orion-/Downloads/'']
             @ ARGS demo_state @ HOME_ARGS demo_state
         \<and> ARGS s2 = ARGS demo_state @ HOME_ARGS demo_state @ HOME_ARGS demo_state)"
proof -
  let ?pre = "[(''/home/siskourso/Downloads/'', ''gdrive:/Backups/-Orion-/Downloads/''),
        (''/home/siskourso/Working/'', ''gdrive:/Backups/-Orion-/Working/'')]"
  have h1: "\<forall>n c. popen env_demo n c \<noteq> Hangs"
    by (simp add: env_demo_def)
  have h2: "BACKUP_LOCATIONS demo_state = ?pre @ (HOME_DIR demo_state, ''gdrive:/Backups/-Orion-/Home/'') # []"
    by (simp add: demo_state_def module_globals_def getEffectiveLevel_def)
  have h3: "HOME_DIR demo_state \<notin> fst ` set ?pre"
    by (simp add: demo_state_def module_globals_def getEffectiveLevel_def)
  have h4: "HOME_DIR demo_state \<notin> fst ` set []"
    by simp
  from main_twice_accumulates_home_args [OF h1 h2 h3 h4, of "''0.25''" "''0.30''"]
  obtain s1 s2 where r: "main env_demo ''0.25'' demo_state = Some s1"
    "ARGS s1 = ARGS demo_state @ HOME_ARGS demo_state"
    "main env_demo ''0.30'' s1 = Some s2"
    "launched s2 = launched s1
               @ map (\<lambda>(x, y). [''rclone'', ''sync'', x, y] @ ARGS demo_state @ HOME_ARGS demo_state) ?pre
               @ [[''rclone'', ''sync'', HOME_DIR demo_state, ''gdrive:/Backups/-Orion-/Home/'']
                    @ ARGS demo_state @ HOME_ARGS demo_state @ HOME_ARGS demo_state]
               @ map (\<lambda>(x, y). [''rclone'', ''sync'', x, y] @ ARGS demo_state @ HOME_ARGS demo_state @ HOME_ARGS demo_state) []"
    "ARGS s2 = ARGS demo_state @ HOME_ARGS demo_state @ HOME_ARGS demo_state"
    by blast
  have "launched s2 ! length (launched s1) =
             [''rclone'', ''sync'', ''/home/siskourso/Downloads/'', ''gdrive:/Backups/-Orion-/Downloads/'']
             @ ARGS demo_state @ HOME_ARGS demo_state"
    unfolding r(4) by (simp add: nth_append)
  with r(1,2,3,5) h1 h2 h3 h4 show ?thesis
    by blast
qed

subsection \<open>C9: toggling the console handler\<close>

text \<open>
  Claim C9. \<^verbatim>\<open>console_output\<close> is idempotent: from the logger that \<^verbatim>\<open>setup_logging\<close>
  builds (the file handler, with or without the console handler after it), after any
  sequence of calls that ends with \<^verbatim>\<open>console_output(True)\<close> (disable then enable, or
  enable twice, among them) the console handler is in the logger's list exactly once, so
  every record logged afterwards at a level that the logger and the handler accept is
  written to the console exactly once; and every call of the sequence logs one
  info-level notice, \<^verbatim>\<open>Console logging enabled\<close> or \<^verbatim>\<open>Console logging disabled\<close>.
\<close>

theorem console_output_attaches_once:
  assumes "hdlrs (logger s) = [RotatingFile f m b l0, Stream l] \<or> hdlrs (logger s) = [RotatingFile f m b l0]"
      and "console_logging s = Stream l"
      and "levelno (getEffectiveLevel (logger s)) \<le> levelno INFO"
  shows "count_list (hdlrs (logger (foldl (\<lambda>t en. console_output e en t) s (bs @ [True]))))
           (console_logging (foldl (\<lambda>t en. console_output e en t) s (bs @ [True]))) = 1
       \<and> (\<forall>lvl msg. levelno (getEffectiveLevel (logger s)) \<le> levelno lvl \<and> levelno l \<le> levelno lvl \<longrightarrow>
             console_records (logger_log e lvl msg (foldl (\<lambda>t en. console_output e en t) s (bs @ [True])))
             = console_records (foldl (\<lambda>t en. console_output e en t) s (bs @ [True]))
                 @ [\<lparr>levelname = lvl, message = msg\<rparr>])
       \<and> records (foldl (\<lambda>t en. console_output e en t) s (bs @ [True])) = records s @
           map (\<lambda>en. \<lparr>levelname = INFO,
             message = (if en then ''Console logging enabled'' else ''Console logging disabled'')\<rparr>)
             (bs @ [True])"
proof -
  let ?t = "foldl (\<lambda>t en. console_output e en t) s bs"
  let ?s' = "foldl (\<lambda>t en. console_output e en t) s (bs @ [True])"
  have s': "?s' = console_output e True ?t"
    by simp
  from foldl_console_output [OF assms, of e bs]
  have t: "hdlrs (logger ?t) = [RotatingFile f m b l0, Stream l] \<or> hdlrs (logger ?t) = [RotatingFile f m b l0]"
    "console_logging ?t = Stream l" "level (logger ?t) = level (logger s)"
    by blast+
  have h: "hdlrs (logger ?s') = [RotatingFile f m b l0, Stream l]"
    unfolding s' using console_output_hdlrs [OF t(1,2), of e True] by simp
  have c: "console_logging ?s' = Stream l"
    unfolding s' using t(2) by (simp add: console_output_frame)
  have lv: "level (logger ?s') = level (logger s)"
    unfolding s' using t(3) by (simp add: console_output_frame)
  have one: "count_list (hdlrs (logger ?s')) (console_logging ?s') = 1"
    unfolding h c by simp
  have mirror: "\<forall>lvl msg. levelno (getEffectiveLevel (logger s)) \<le> levelno lvl \<and> levelno l \<le> levelno lvl \<longrightarrow>
             console_records (logger_log e lvl msg ?s') = console_records ?s' @ [\<lparr>levelname = lvl, message = msg\<rparr>]"
  proof (intro allI impI)
    fix lvl msg
    assume a: "levelno (getEffectiveLevel (logger s)) \<le> levelno lvl \<and> levelno l \<le> levelno lvl"
    have ge: "getEffectiveLevel (logger ?s') = getEffectiveLevel (logger s)"
      by (rule getEffectiveLevel_cong [OF lv])
    from a have l1: "levelno (getEffectiveLevel (logger ?s')) \<le> levelno lvl"
      unfolding ge by blast
    from a have l2: "levelno l \<le> levelno lvl"
      by blast
    from console_records_once [OF h l1 l2]
    show "console_records (logger_log e lvl msg ?s') = console_records ?s' @ [\<lparr>levelname = lvl, message = msg\<rparr>]" .
  qed
  from foldl_console_output [OF assms, of e "bs @ [True]"]
  have notices: "records ?s' = records s @
           map (\<lambda>en. \<lparr>levelname = INFO,
             message = (if en then ''Console logging enabled'' else ''Console logging disabled'')\<rparr>)
             (bs @ [True])"
    by blast
  from one mirror notices show ?thesis
    by blast
qed

theorem console_output_attaches_once_witness:
  "(let s' = foldl (\<lambda>t en. console_output env_demo en t) demo_state ([False] @ [True])
    in (hdlrs (logger demo_state) = [RotatingFile ''pyBackup.log'' 104857600 5 DEBUG, Stream DEBUG]
          \<or> hdlrs (logger demo_state) = [RotatingFile ''pyBackup.log'' 104857600 5 DEBUG])
       \<and> console_logging demo_state = Stream DEBUG
       \<and> levelno (getEffectiveLevel (logger demo_state)) \<le> levelno INFO
       \<and> levelno (getEffectiveLevel (logger demo_state)) \<le> levelno ERROR \<and> levelno DEBUG \<le> levelno ERROR
       \<and> count_list (hdlrs (logger s')) (console_logging s') = 1
       \<and> console_records (logger_log env_demo ERROR ''Error syncing'' s')
           = console_records s' @ [\<lparr>levelname = ERROR, message = ''Error syncing''\<rparr>]
       \<and> records s' = records demo_state @
           [\<lparr>levelname = INFO, message = ''Console logging disabled''\<rparr>,
            \<lparr>levelname = INFO, message = ''Console logging enabled''\<rparr>])"
proof -
  have h1: "hdlrs (logger demo_state) = [RotatingFile ''pyBackup.log'' 104857600 5 DEBUG, Stream DEBUG]
          \<or> hdlrs (logger demo_state) = [RotatingFile ''pyBackup.log'' 104857600 5 DEBUG]"
    by (simp add: demo_state_def module_globals_def getEffectiveLevel_def)
  have h2: "console_logging demo_state = Stream DEBUG"
    by (simp add: demo_state_def module_globals_def getEffectiveLevel_def)
  have h3: "levelno (getEffectiveLevel (logger demo_state)) \<le> levelno INFO"
    by (simp add: demo_state_def module_globals_def getEffectiveLevel_def)
  have h4: "levelno (getEffectiveLevel (logger demo_state)) \<le> levelno ERROR \<and> levelno DEBUG \<le> levelno ERROR"
    by (simp add: demo_state_def module_globals_def getEffectiveLevel_def)
  from console_output_attaches_once [OF h1 h2 h3, of env_demo "[False]"] h1 h2 h3 h4
  show ?thesis
    unfolding Let_def by simp
qed

subsection \<open>C2: a log file that cannot be written\<close>




end
